theory Spec2Isabelle
  imports Complex_Main
begin

section \<open>JavaScript values used by the controllers\<close>

text \<open>
  The controllers read \<^verbatim>\<open>req.query\<close>, a bag of string-valued parameters, and turn it
  into a filter object, a sort object and a page window. A parameter is either absent
  (\<^verbatim>\<open>undefined\<close>) or a string; a string is truthy exactly when it is not empty.
\<close>

type_synonym params = "string \<rightharpoonup> string"

text \<open>
  A JavaScript number as the filters see it: \<^verbatim>\<open>NaN\<close>, a finite value or an infinity.
  Finite values are kept exact (rounding to the nearest double is left out).
\<close>

datatype jsnum = NaN | Num rat | PosInf | NegInf

text \<open>
  White space that the parsers skip: tab, line feed, vertical tab, form feed, carriage
  return and space (the white space characters outside ASCII are left out).
\<close>

definition isSpace :: "char \<Rightarrow> bool" where
  "isSpace c = (c \<in> set [CHR 0x09, CHR 0x0A, CHR 0x0B, CHR 0x0C, CHR 0x0D, CHR 0x20])"

definition isDigit :: "char \<Rightarrow> bool" where
  "isDigit c = (c \<in> set ''0123456789'')"

definition digitVal :: "char \<Rightarrow> nat" where
  "digitVal c = of_char c - 48"

text \<open>The value of a run of decimal digits, most significant first.\<close>

definition digitsVal :: "string \<Rightarrow> nat" where
  "digitsVal ds = foldl (\<lambda>acc c. 10 * acc + digitVal c) 0 ds"

text \<open>An optional leading sign: whether it is a minus, and the rest of the text.\<close>

fun splitSign :: "string \<Rightarrow> bool \<times> string" where
  "splitSign [] = (False, [])"
| "splitSign (c # cs) =
     (if c = CHR ''-'' then (True, cs)
      else if c = CHR ''+'' then (False, cs)
      else (False, c # cs))"

text \<open>
  \<^verbatim>\<open>parseInt(s, 10)\<close>: leading white space is skipped, a sign is read, then the longest
  run of decimal digits; with no digit the result is \<^verbatim>\<open>NaN\<close>, here \<open>None\<close>. The
  value is the exact integer (the rounding of integers beyond 2^53 is left out).
\<close>

definition parseInt10 :: "string \<Rightarrow> int option" where
  "parseInt10 s =
     (let (neg, u) = splitSign (dropWhile isSpace s);
          ds = takeWhile isDigit u
      in if ds = [] then None
         else Some (if neg then - int (digitsVal ds) else int (digitsVal ds)))"

text \<open>An exponent part \<^verbatim>\<open>e[+-]digits\<close>; it counts only when a digit follows.\<close>

fun exponentPart :: "string \<Rightarrow> int" where
  "exponentPart [] = 0"
| "exponentPart (c # cs) =
     (if c = CHR ''e'' \<or> c = CHR ''E'' then
        (let (neg, u) = splitSign cs;
             es = takeWhile isDigit u
         in if es = [] then 0
            else if neg then - int (digitsVal es) else int (digitsVal es))
      else 0)"

definition scale10 :: "rat \<Rightarrow> int \<Rightarrow> rat" where
  "scale10 m e = (if 0 \<le> e then m * 10 ^ nat e else m / 10 ^ nat (- e))"

text \<open>
  \<^verbatim>\<open>parseFloat(s)\<close>: leading white space is skipped and the longest prefix that is a
  decimal literal is read: a sign, then \<^verbatim>\<open>Infinity\<close> or digits with an optional
  fraction and exponent. With no such prefix the result is \<^verbatim>\<open>NaN\<close>.
\<close>

definition parseFloat :: "string \<Rightarrow> jsnum" where
  "parseFloat s =
     (let (neg, u) = splitSign (dropWhile isSpace s) in
      if take 8 u = ''Infinity'' then (if neg then NegInf else PosInf)
      else
        (let ip = takeWhile isDigit u;
             r1 = dropWhile isDigit u;
             hasDot = (r1 \<noteq> [] \<and> hd r1 = CHR ''.'');
             fp = (if hasDot then takeWhile isDigit (tl r1) else []);
             r2 = (if hasDot then dropWhile isDigit (tl r1) else r1)
         in if ip = [] \<and> fp = [] then NaN
            else
              (let m = of_nat (digitsVal ip) + of_nat (digitsVal fp) / 10 ^ length fp;
                   v = scale10 m (exponentPart r2)
               in Num (if neg then - v else v))))"

definition truthy :: "string option \<Rightarrow> bool" where
  "truthy v = (case v of None \<Rightarrow> False | Some s \<Rightarrow> s \<noteq> [])"


section \<open>Recipes and the record store\<close>

text \<open>
  A stored recipe, following the schema of \<^verbatim>\<open>models/Recipe.js\<close>: the numeric fields
  are nullable (\<open>None\<close>), \<^verbatim>\<open>nutrients\<close> lists the nutrient names with the stored strings.
\<close>

record recipe =
  title :: string
  cuisine :: string
  rating :: "rat option"
  prep_time :: "rat option"
  cook_time :: "rat option"
  total_time :: "rat option"
  description :: string
  nutrients :: "(string \<times> string) list"
  serves :: string
  ingredients :: "string list"
  instructions :: "string list"
  url :: string

text \<open>
  The condition stored under one key of a filter object: a case-insensitive pattern
  (\<^verbatim>\<open>{$regex: p, $options: 'i'}\<close>), a bare number (exact equality),
  \<^verbatim>\<open>{$gte: n}\<close>, \<^verbatim>\<open>{$lte: n}\<close>, or, under the key \<^verbatim>\<open>$or\<close>, a list of alternatives
  each pairing a field with a pattern.
\<close>

datatype cond =
    RegexI string
  | Equals jsnum
  | Gte jsnum
  | Lte jsnum
  | AnyOf "(string \<times> string) list"

text \<open>
  The filter object is a JavaScript object: assigning to a key that is already there
  replaces its value.
\<close>

type_synonym query = "string \<rightharpoonup> cond"

text \<open>The sort object \<^verbatim>\<open>{ [sortBy]: sortOrder }\<close>: a field and 1 or -1.\<close>

type_synonym sort_spec = "string \<times> int"

datatype fieldval = VNull | VNum rat | VStr string

definition numField :: "rat option \<Rightarrow> fieldval" where
  "numField v = (case v of None \<Rightarrow> VNull | Some x \<Rightarrow> VNum x)"

text \<open>The value a document holds at a path the controllers filter on.\<close>

definition getField :: "recipe \<Rightarrow> string \<Rightarrow> fieldval" where
  "getField r k =
     (if k = ''title'' then VStr (title r)
      else if k = ''cuisine'' then VStr (cuisine r)
      else if k = ''description'' then VStr (description r)
      else if k = ''rating'' then numField (rating r)
      else if k = ''prep_time'' then numField (prep_time r)
      else if k = ''cook_time'' then numField (cook_time r)
      else if k = ''total_time'' then numField (total_time r)
      else if k = ''nutrients.calories'' then
        (case map_of (nutrients r) ''calories'' of None \<Rightarrow> VNull | Some s \<Rightarrow> VStr s)
      else VNull)"

text \<open>
  What the store decides by itself and the controllers do not fix: how a condition is
  tested against a string-valued field (the pattern language, and the comparison of a
  string field with a numeric operand), how documents are ordered for a sort object
  (ties included), and which filter objects and sort objects it refuses beyond the
  cases written out below (a pattern it cannot compile, a sort key it does not accept).
\<close>

record engine =
  textHolds :: "cond \<Rightarrow> string \<Rightarrow> bool"
  sortDocs :: "sort_spec \<Rightarrow> recipe list \<Rightarrow> recipe list"
  refuses :: "query \<Rightarrow> bool"
  refusesSort :: "sort_spec \<Rightarrow> bool"

fun numLe :: "jsnum \<Rightarrow> jsnum \<Rightarrow> bool" where
  "numLe (Num a) (Num b) = (a \<le> b)"
| "numLe NegInf b = (b \<noteq> NaN)"
| "numLe a PosInf = (a \<noteq> NaN)"
| "numLe a b = False"

text \<open>A condition on a numeric field; a null field satisfies none.\<close>

fun numHolds :: "cond \<Rightarrow> rat \<Rightarrow> bool" where
  "numHolds (Equals n) x = (n = Num x)"
| "numHolds (Gte n) x = numLe n (Num x)"
| "numHolds (Lte n) x = numLe (Num x) n"
| "numHolds c x = False"

definition condHolds :: "engine \<Rightarrow> cond \<Rightarrow> fieldval \<Rightarrow> bool" where
  "condHolds E c v =
     (case v of VNull \<Rightarrow> False | VNum x \<Rightarrow> numHolds c x | VStr s \<Rightarrow> textHolds E c s)"

text \<open>The keys the controllers ever write into a filter object.\<close>

definition filterKeys :: "string list" where
  "filterKeys = [''$or'', ''title'', ''cuisine'', ''rating'', ''prep_time'',
                 ''cook_time'', ''total_time'', ''nutrients.calories'']"

definition keyHolds :: "engine \<Rightarrow> query \<Rightarrow> recipe \<Rightarrow> string \<Rightarrow> bool" where
  "keyHolds E q r k =
     (case q k of
        None \<Rightarrow> True
      | Some (AnyOf alts) \<Rightarrow> list_ex (\<lambda>(f, p). condHolds E (RegexI p) (getField r f)) alts
      | Some c \<Rightarrow> condHolds E c (getField r k))"

text \<open>A document matches a filter object when it satisfies every key of it.\<close>

definition matches :: "engine \<Rightarrow> query \<Rightarrow> recipe \<Rightarrow> bool" where
  "matches E q r = list_all (keyHolds E q r) filterKeys"

datatype store_error = CastError | BadSkip | Refused

fun operandIsNaN :: "cond \<Rightarrow> bool" where
  "operandIsNaN (Equals n) = (n = NaN)"
| "operandIsNaN (Gte n) = (n = NaN)"
| "operandIsNaN (Lte n) = (n = NaN)"
| "operandIsNaN c = False"

text \<open>The paths the schema declares with type \<^verbatim>\<open>Number\<close>.\<close>

definition numberPaths :: "string list" where
  "numberPaths = [''rating'', ''prep_time'', ''cook_time'', ''total_time'']"

text \<open>
  The schema casts the operands of a filter before it is sent: on a path of type
  \<^verbatim>\<open>Number\<close> a \<^verbatim>\<open>NaN\<close> operand fails the cast and the operation is rejected.
\<close>

definition castFails :: "query \<Rightarrow> bool" where
  "castFails q =
     list_ex (\<lambda>k. case q k of None \<Rightarrow> False | Some c \<Rightarrow> operandIsNaN c) numberPaths"

definition checkQuery :: "engine \<Rightarrow> query \<Rightarrow> store_error option" where
  "checkQuery E q =
     (if castFails q then Some CastError
      else if refuses E q then Some Refused
      else None)"

text \<open>\<^verbatim>\<open>Recipe.countDocuments(query)\<close> over the collection \<open>db\<close>.\<close>

definition countDocuments :: "engine \<Rightarrow> recipe list \<Rightarrow> query \<Rightarrow> store_error + nat" where
  "countDocuments E db q =
     (case checkQuery E q of
        Some e \<Rightarrow> Inl e
      | None \<Rightarrow> Inr (length (filter (matches E q) db)))"

text \<open>
  \<^verbatim>\<open>Recipe.find(query).sort(sort).skip(skip).limit(limit).lean()\<close>: a negative skip is
  rejected; a negative limit is read as its absolute value and a zero limit as no limit.
\<close>

definition limitDocs :: "int \<Rightarrow> recipe list \<Rightarrow> recipe list" where
  "limitDocs n xs = (if n = 0 then xs else take (nat \<bar>n\<bar>) xs)"

definition find_docs :: "engine \<Rightarrow> recipe list \<Rightarrow> query \<Rightarrow> sort_spec \<Rightarrow> int \<Rightarrow> int
                      \<Rightarrow> store_error + recipe list" where
  "find_docs E db q srt skip n =
     (case checkQuery E q of
        Some e \<Rightarrow> Inl e
      | None \<Rightarrow>
          if refusesSort E srt then Inl Refused
          else if skip < 0 then Inl BadSkip
          else Inr (limitDocs n (drop (nat skip) (sortDocs E srt (filter (matches E q) db)))))"


section \<open>The controllers\<close>

text \<open>\<^verbatim>\<open>parseInt(req.query.k, 10)\<close>; an absent parameter parses to \<^verbatim>\<open>NaN\<close>.\<close>

definition parseIntParam :: "string option \<Rightarrow> int option" where
  "parseIntParam v = (case v of None \<Rightarrow> None | Some s \<Rightarrow> parseInt10 s)"

text \<open>\<^verbatim>\<open>n || d\<close> on a number: \<^verbatim>\<open>NaN\<close> and 0 are falsy.\<close>

definition intOr :: "int option \<Rightarrow> int \<Rightarrow> int" where
  "intOr v d = (case v of None \<Rightarrow> d | Some n \<Rightarrow> if n = 0 then d else n)"

text \<open>\<^verbatim>\<open>s || d\<close> on a string parameter: absent and empty are falsy.\<close>

definition strOr :: "string option \<Rightarrow> string \<Rightarrow> string" where
  "strOr v d = (case v of None \<Rightarrow> d | Some s \<Rightarrow> if s = [] then d else s)"

text \<open>\<^verbatim>\<open>if (v) { query = f(v, query) }\<close> for a string parameter \<open>v\<close>.\<close>

definition ifTruthy :: "string option \<Rightarrow> (string \<Rightarrow> query \<Rightarrow> query) \<Rightarrow> query \<Rightarrow> query" where
  "ifTruthy v f q = (case v of None \<Rightarrow> q | Some s \<Rightarrow> if s = [] then q else f s q)"

text \<open>
  Two readings of one parameter that differ at most in that one is absent where the
  other is the empty string.
\<close>

definition sameOrBlank :: "string option \<Rightarrow> string option \<Rightarrow> bool" where
  "sameOrBlank v w = (v = w \<or> (v \<in> {None, Some []} \<and> w \<in> {None, Some []}))"

definition intNum :: "int option \<Rightarrow> jsnum" where
  "intNum v = (case v of None \<Rightarrow> NaN | Some n \<Rightarrow> Num (of_int n))"

text \<open>
  The sort object, built by the same three lines in every handler:
  \<^verbatim>\<open>sortBy = req.query.sortBy || 'rating'\<close>,
  \<^verbatim>\<open>sortOrder = req.query.sortOrder === 'asc' ? 1 : -1\<close>.
\<close>

definition sortObject :: "params \<Rightarrow> sort_spec" where
  "sortObject p =
     (let sortBy = strOr (p ''sortBy'') ''rating'';
          sortOrder = (if p ''sortOrder'' = Some ''asc'' then 1 else - 1)
      in (sortBy, sortOrder))"

text \<open>The local variables a handler has computed when it calls the store.\<close>

record locals =
  loc_page :: int
  loc_limit :: int
  loc_skip :: int
  loc_sort :: sort_spec
  loc_query :: query

text \<open>
  The page window: \<^verbatim>\<open>page = parseInt(req.query.page, 10) || 1\<close>,
  \<^verbatim>\<open>limit = parseInt(req.query.limit, 10) || 10\<close>, \<^verbatim>\<open>skip = (page - 1) * limit\<close>.
\<close>

definition mkLocals :: "params \<Rightarrow> query \<Rightarrow> locals" where
  "mkLocals p q =
     (let page = intOr (parseIntParam (p ''page'')) 1;
          limit = intOr (parseIntParam (p ''limit'')) 10;
          skip = (page - 1) * limit
      in \<lparr>loc_page = page, loc_limit = limit, loc_skip = skip,
          loc_sort = sortObject p, loc_query = q\<rparr>)"

text \<open>The JSON body of a successful response; \<open>success\<close> is \<open>None\<close> where the key is not sent.\<close>

record envelope =
  success :: "bool option"
  page :: int
  limit :: int
  total :: nat
  data :: "recipe list"

text \<open>
  A response: status 200 with the envelope, or status 500 with the handler's message
  (the \<^verbatim>\<open>error\<close> detail, which depends on the process environment, is left out).
\<close>

datatype response = Ok200 envelope | Err500 string

text \<open>
  \<^verbatim>\<open>Promise.all([find ..., countDocuments ...])\<close> followed by \<^verbatim>\<open>res.status(200).json\<close>;
  a rejection of either operation reaches the \<^verbatim>\<open>catch\<close> and is answered with status 500.
\<close>

definition respond ::
  "engine \<Rightarrow> recipe list \<Rightarrow> bool option \<Rightarrow> string \<Rightarrow> locals \<Rightarrow> response" where
  "respond E db flag msg l =
     (case find_docs E db (loc_query l) (loc_sort l) (loc_skip l) (loc_limit l) of
        Inl e \<Rightarrow> Err500 msg
      | Inr recipes \<Rightarrow>
          (case countDocuments E db (loc_query l) of
             Inl e \<Rightarrow> Err500 msg
           | Inr n \<Rightarrow>
               Ok200 \<lparr>success = flag, page = loc_page l, limit = loc_limit l,
                      total = n, data = recipes\<rparr>))"

subsection \<open>The list endpoint, \<^verbatim>\<open>getRecipes\<close>\<close>

text \<open>
  \<^verbatim>\<open>handleNumberFilter\<close>: the strings \<^verbatim>\<open>'null'\<close> and \<^verbatim>\<open>'undefined'\<close> and every
  value that does not parse give \<^verbatim>\<open>null\<close>, here \<open>None\<close>.
\<close>

definition handleNumberFilter :: "string \<Rightarrow> jsnum option" where
  "handleNumberFilter v =
     (if v = ''null'' \<or> v = ''undefined'' then None
      else (let num = parseFloat v in if num = NaN then None else Some num))"

text \<open>The body of the \<^verbatim>\<open>forEach\<close> over the numeric fields.\<close>

definition numericFilter :: "params \<Rightarrow> string \<Rightarrow> query \<Rightarrow> query" where
  "numericFilter p field q =
     (case p field of
        None \<Rightarrow> q
      | Some v \<Rightarrow>
          (case handleNumberFilter v of
             None \<Rightarrow> q
           | Some n \<Rightarrow> q(field \<mapsto> Equals n)))"

text \<open>
  The filter object after the four blocks for \<^verbatim>\<open>q\<close>, \<^verbatim>\<open>cuisine\<close>, the minimum
  \<^verbatim>\<open>rating\<close> and \<^verbatim>\<open>maxTotalTime\<close>, before the numeric fields are handled.
\<close>

definition getRecipes_thresholds :: "params \<Rightarrow> query" where
  "getRecipes_thresholds p =
     (let q0 = Map.empty;
          q1 = ifTruthy (p ''q'')
                 (\<lambda>s q. q(''$or'' \<mapsto> AnyOf [(''title'', s), (''cuisine'', s), (''description'', s)])) q0;
          q2 = ifTruthy (p ''cuisine'') (\<lambda>s q. q(''cuisine'' \<mapsto> RegexI s)) q1;
          q3 = ifTruthy (p ''rating'') (\<lambda>s q. q(''rating'' \<mapsto> Gte (parseFloat s))) q2
      in ifTruthy (p ''maxTotalTime'')
           (\<lambda>s q. q(''total_time'' \<mapsto> Lte (intNum (parseInt10 s)))) q3)"

text \<open>The filter object the list endpoint hands to the store.\<close>

definition getRecipes_query :: "params \<Rightarrow> query" where
  "getRecipes_query p =
     foldl (\<lambda>q field. numericFilter p field q) (getRecipes_thresholds p)
       [''prep_time'', ''cook_time'', ''total_time'', ''rating'']"

definition getRecipes_locals :: "params \<Rightarrow> locals" where
  "getRecipes_locals p = mkLocals p (getRecipes_query p)"

definition getRecipes :: "engine \<Rightarrow> recipe list \<Rightarrow> params \<Rightarrow> response" where
  "getRecipes E db p =
     respond E db (Some True) ''Server error while fetching recipes'' (getRecipes_locals p)"

subsection \<open>The search endpoint with \<^verbatim>\<open>minRating\<close>, \<^verbatim>\<open>maxPrepTime\<close>, \<^verbatim>\<open>maxCookTime\<close>\<close>

text \<open>
  The body of the \<^verbatim>\<open>minRating\<close> block: the value is parsed and the threshold is
  written only when \<^verbatim>\<open>!isNaN(rating) && rating >= 1 && rating <= 5\<close>.
\<close>

definition minRatingFilter :: "string \<Rightarrow> query \<Rightarrow> query" where
  "minRatingFilter s q =
     (let rating = parseFloat s in
      if rating \<noteq> NaN \<and> numLe (Num 1) rating \<and> numLe rating (Num 5)
      then q(''rating'' \<mapsto> Gte rating) else q)"

text \<open>
  The body of the \<^verbatim>\<open>maxPrepTime\<close> and \<^verbatim>\<open>maxCookTime\<close> blocks, which differ in the
  key only: the bound is written when \<^verbatim>\<open>!isNaN(t) && t > 0\<close>.
\<close>

definition maxTimeFilter :: "string \<Rightarrow> string \<Rightarrow> query \<Rightarrow> query" where
  "maxTimeFilter key s q =
     (case parseInt10 s of
        None \<Rightarrow> q
      | Some t \<Rightarrow> if t > 0 then q(key \<mapsto> Lte (Num (of_int t))) else q)"

definition searchRecipes_B1_query :: "params \<Rightarrow> query" where
  "searchRecipes_B1_query p =
     (let q0 = Map.empty;
          q1 = ifTruthy (p ''q'')
                 (\<lambda>s q. q(''$or'' \<mapsto> AnyOf [(''title'', s), (''description'', s)])) q0;
          q2 = ifTruthy (p ''cuisine'') (\<lambda>s q. q(''cuisine'' \<mapsto> RegexI s)) q1;
          q3 = ifTruthy (p ''minRating'') minRatingFilter q2;
          q4 = ifTruthy (p ''maxPrepTime'') (maxTimeFilter ''prep_time'') q3
      in ifTruthy (p ''maxCookTime'') (maxTimeFilter ''cook_time'') q4)"

definition searchRecipes_B1_locals :: "params \<Rightarrow> locals" where
  "searchRecipes_B1_locals p = mkLocals p (searchRecipes_B1_query p)"

definition searchRecipes_B1 :: "engine \<Rightarrow> recipe list \<Rightarrow> params \<Rightarrow> response" where
  "searchRecipes_B1 E db p =
     respond E db None ''Server error while searching recipes'' (searchRecipes_B1_locals p)"

subsection \<open>The search endpoint with comparison operators\<close>

text \<open>\<^verbatim>\<open>buildOperatorQuery\<close>; \<^verbatim>\<open>null\<close> is \<open>None\<close>.\<close>

definition buildOperatorQuery :: "string \<Rightarrow> string \<Rightarrow> cond option" where
  "buildOperatorQuery v operator =
     (let num = parseFloat v in
      if num = NaN then None
      else if operator = ''gte'' then Some (Gte num)
      else if operator = ''lte'' then Some (Lte num)
      else if operator = ''eq'' then Some (Equals num)
      else Some (Gte num))"

text \<open>
  \<^verbatim>\<open>if (v) { const c = buildOperatorQuery(v, op || dflt); if (c !== null) query[key] = c }\<close>
\<close>

definition operatorFilter :: "params \<Rightarrow> string \<Rightarrow> string \<Rightarrow> string \<Rightarrow> string \<Rightarrow> query \<Rightarrow> query" where
  "operatorFilter p name opName dflt key =
     ifTruthy (p name)
       (\<lambda>s q. case buildOperatorQuery s (strOr (p opName) dflt) of
                 None \<Rightarrow> q
               | Some c \<Rightarrow> q(key \<mapsto> c))"

definition searchRecipes_B2_query :: "params \<Rightarrow> query" where
  "searchRecipes_B2_query p =
     (let q0 = Map.empty;
          q1 = ifTruthy (p ''title'') (\<lambda>s q. q(''title'' \<mapsto> RegexI s)) q0;
          q2 = ifTruthy (p ''cuisine'') (\<lambda>s q. q(''cuisine'' \<mapsto> RegexI s)) q1;
          q3 = operatorFilter p ''rating'' ''ratingOp'' ''gte'' ''rating'' q2;
          q4 = operatorFilter p ''calories'' ''caloriesOp'' ''gte'' ''nutrients.calories'' q3
      in operatorFilter p ''total_time'' ''timeOp'' ''lte'' ''total_time'' q4)"

definition searchRecipes_B2_locals :: "params \<Rightarrow> locals" where
  "searchRecipes_B2_locals p = mkLocals p (searchRecipes_B2_query p)"

definition searchRecipes_B2 :: "engine \<Rightarrow> recipe list \<Rightarrow> params \<Rightarrow> response" where
  "searchRecipes_B2 E db p =
     respond E db None ''Server error while searching recipes'' (searchRecipes_B2_locals p)"


section \<open>The seed script\<close>

text \<open>
  An entry of the recipe data set as \<^verbatim>\<open>seed.js\<close> reads it: every property may be
  missing or \<^verbatim>\<open>null\<close> (\<open>None\<close>); a property that is there holds a value of the
  type the schema expects.
\<close>

record raw_recipe =
  raw_title :: "string option"
  raw_cuisine :: "string option"
  raw_rating :: "rat option"
  raw_prep_time :: "rat option"
  raw_cook_time :: "rat option"
  raw_total_time :: "rat option"
  raw_description :: "string option"
  raw_ingredients :: "string list option"
  raw_instructions :: "string list option"
  raw_nutrients :: "(string \<times> string) list option"
  raw_serves :: "string option"
  raw_URL :: "string option"
  raw_Continent :: "string option"
  raw_Country_State :: "string option"

text \<open>
  The object pushed to \<^verbatim>\<open>formattedRecipes\<close>: the schema's fields and the two
  properties \<^verbatim>\<open>continent\<close> and \<^verbatim>\<open>country_state\<close> the script adds.
\<close>

record seed_recipe = recipe +
  continent :: string
  country_state :: string

text \<open>\<^verbatim>\<open>x || d\<close> on a number of the data set: missing, \<^verbatim>\<open>null\<close> and 0 are falsy.\<close>

definition numOr :: "rat option \<Rightarrow> rat \<Rightarrow> rat" where
  "numOr v d = (case v of None \<Rightarrow> d | Some x \<Rightarrow> if x = 0 then d else x)"

text \<open>\<^verbatim>\<open>x || d\<close> on an array or an object: only missing and \<^verbatim>\<open>null\<close> are falsy.\<close>

definition objOr :: "'a option \<Rightarrow> 'a \<Rightarrow> 'a" where
  "objOr v d = (case v of None \<Rightarrow> d | Some x \<Rightarrow> x)"

text \<open>
  The body of the loop over the entries: \<open>None\<close> is the \<^verbatim>\<open>continue\<close> taken for a
  \<^verbatim>\<open>null\<close> entry or an entry with no title.
\<close>

definition formatRecipe :: "raw_recipe option \<Rightarrow> seed_recipe option" where
  "formatRecipe entry =
     (case entry of
        None \<Rightarrow> None
      | Some r \<Rightarrow>
          if \<not> truthy (raw_title r) then None
          else Some
            \<lparr>title = strOr (raw_title r) [],
             cuisine = strOr (raw_cuisine r) ''Uncategorized'',
             rating = Some (numOr (raw_rating r) 0),
             prep_time = Some (numOr (raw_prep_time r) 0),
             cook_time = Some (numOr (raw_cook_time r) 0),
             total_time = Some (numOr (raw_total_time r)
                                  (numOr (raw_prep_time r) 0 + numOr (raw_cook_time r) 0)),
             description = strOr (raw_description r) [],
             nutrients = objOr (raw_nutrients r) [],
             serves = strOr (raw_serves r) [],
             ingredients = objOr (raw_ingredients r) [],
             instructions = objOr (raw_instructions r) [],
             url = strOr (raw_URL r) [],
             continent = strOr (raw_Continent r) ''Unknown'',
             country_state = strOr (raw_Country_State r) ''Unknown''\<rparr>)"

fun formatRecipes :: "(string \<times> raw_recipe option) list \<Rightarrow> seed_recipe list" where
  "formatRecipes [] = []"
| "formatRecipes ((key, entry) # rest) =
     (case formatRecipe entry of
        None \<Rightarrow> formatRecipes rest
      | Some f \<Rightarrow> f # formatRecipes rest)"


subsection \<open>What \<^verbatim>\<open>insertMany\<close> stores\<close>

text \<open>
  \<^verbatim>\<open>trim\<close>, the setter of the schema's trimmed strings: white space is removed at both
  ends.
\<close>

definition trim :: "string \<Rightarrow> string" where
  "trim s = rev (dropWhile isSpace (rev (dropWhile isSpace s)))"

text \<open>The nutrient names the schema declares.\<close>

definition nutrientNames :: "string list" where
  "nutrientNames = [''calories'', ''carbohydrateContent'', ''cholesterolContent'',
     ''fiberContent'', ''proteinContent'', ''saturatedFatContent'', ''sodiumContent'',
     ''sugarContent'', ''fatContent'', ''unsaturatedFatContent'']"

text \<open>
  The document built from a formatted object: \<^verbatim>\<open>title\<close>, \<^verbatim>\<open>cuisine\<close> and
  \<^verbatim>\<open>description\<close> are trimmed, and the properties the schema does not declare
  (\<^verbatim>\<open>continent\<close>, \<^verbatim>\<open>country_state\<close>, other nutrient names) are dropped. The
  identifier and the timestamps the store adds are left out.
\<close>

definition castDoc :: "seed_recipe \<Rightarrow> recipe" where
  "castDoc f =
     \<lparr>title = trim (title f), cuisine = trim (cuisine f), rating = rating f,
      prep_time = prep_time f, cook_time = cook_time f, total_time = total_time f,
      description = trim (description f),
      nutrients = filter (\<lambda>(k, v). k \<in> set nutrientNames) (nutrients f),
      serves = serves f, ingredients = ingredients f, instructions = instructions f,
      url = url f\<rparr>"

definition belowMin :: "string \<Rightarrow> rat option \<Rightarrow> string list" where
  "belowMin path v = (case v of None \<Rightarrow> [] | Some x \<Rightarrow> if x < 0 then [path] else [])"

text \<open>
  The paths whose validators fail: \<^verbatim>\<open>title\<close> is required and at most 200 characters
  long, \<^verbatim>\<open>cuisine\<close> is required (a required string must not be empty), \<^verbatim>\<open>rating\<close>
  lies between 0 and 5, and the three times are not negative.
\<close>

definition validationErrors :: "recipe \<Rightarrow> string list" where
  "validationErrors d =
     (if title d = [] \<or> 200 < length (title d) then [''title''] else [])
     @ (if cuisine d = [] then [''cuisine''] else [])
     @ (case rating d of None \<Rightarrow> [] | Some x \<Rightarrow> if x < 0 \<or> 5 < x then [''rating''] else [])
     @ belowMin ''prep_time'' (prep_time d)
     @ belowMin ''cook_time'' (cook_time d)
     @ belowMin ''total_time'' (total_time d)"

text \<open>The rejection of a batch: the paths of the first document that fails.\<close>

datatype seed_error = ValidationError "string list"

definition validateDoc :: "seed_recipe \<Rightarrow> seed_error + recipe" where
  "validateDoc f =
     (let d = castDoc f
      in if validationErrors d = [] then Inr d else Inl (ValidationError (validationErrors d)))"

text \<open>The documents of a list of formatted objects, or the first validation error.\<close>

fun validateAll :: "seed_recipe list \<Rightarrow> seed_error + recipe list" where
  "validateAll [] = Inr []"
| "validateAll (f # fs) =
     (case validateDoc f of
        Inl e \<Rightarrow> Inl e
      | Inr d \<Rightarrow> (case validateAll fs of Inl e \<Rightarrow> Inl e | Inr ds \<Rightarrow> Inr (d # ds)))"

text \<open>
  \<^verbatim>\<open>Recipe.insertMany(batch)\<close>: every document of the batch is validated before
  anything is written; when one is invalid the call is rejected and nothing of the
  batch is stored.
\<close>

definition insertMany :: "seed_recipe list \<Rightarrow> recipe list \<Rightarrow> seed_error + recipe list" where
  "insertMany batch db =
     (case validateAll batch of Inl e \<Rightarrow> Inl e | Inr ds \<Rightarrow> Inr (db @ ds))"

definition batchSize :: nat where
  "batchSize = 50"

text \<open>
  The loop \<^verbatim>\<open>for (let i = 0; i < formattedRecipes.length; i += batchSize)\<close>: the first
  rejected batch ends it, and the batches inserted before stay in the collection.
\<close>

function insertBatches ::
  "seed_recipe list \<Rightarrow> recipe list \<Rightarrow> (seed_error \<times> recipe list) + recipe list" where
  "insertBatches fs db =
     (if fs = [] then Inr db
      else (case insertMany (take batchSize fs) db of
              Inl e \<Rightarrow> Inl (e, db)
            | Inr db' \<Rightarrow> insertBatches (drop batchSize fs) db'))"
  by pat_completeness auto
termination
  by (relation "measure (\<lambda>(fs, db). length fs)") (auto simp: batchSize_def)

declare insertBatches.simps [simp del]

text \<open>
  \<^verbatim>\<open>seedDatabase\<close>: the exit code and the collection it leaves, given whether the
  connection succeeds, the data set and the collection before. After connecting the
  collection is emptied (\<^verbatim>\<open>deleteMany({})\<close>); any rejection reaches the \<^verbatim>\<open>catch\<close> and
  the process exits with code 1.
\<close>

definition seedDatabase ::
  "bool \<Rightarrow> (string \<times> raw_recipe option) list \<Rightarrow> recipe list \<Rightarrow> int \<times> recipe list" where
  "seedDatabase connects recipeData db0 =
     (if \<not> connects then (1, db0)
      else (case insertBatches (formatRecipes recipeData) [] of
              Inl (e, db) \<Rightarrow> (1, db)
            | Inr db \<Rightarrow> (0, db)))"

text \<open>The document \<open>d\<close> is what the script formats and the schema accepts for the entry \<open>r\<close>.\<close>

definition storedFrom :: "raw_recipe \<Rightarrow> recipe \<Rightarrow> bool" where
  "storedFrom r d =
     (case formatRecipe (Some r) of None \<Rightarrow> False | Some f \<Rightarrow> validateDoc f = Inr d)"


section \<open>A reference engine and sample data\<close>

text \<open>
  A store to run the handlers against: patterns are read as plain text and tested by
  case-insensitive containment, a string field satisfies no numeric condition,
  documents are ordered by insertion sort on the sort field (null first, then numbers,
  then strings by character code), and nothing is refused.
\<close>

definition lowerChar :: "char \<Rightarrow> char" where
  "lowerChar c = (let n = (of_char c :: nat) in if 65 \<le> n \<and> n \<le> 90 then char_of (n + 32) else c)"

fun prefixCI :: "string \<Rightarrow> string \<Rightarrow> bool" where
  "prefixCI [] s = True"
| "prefixCI (c # cs) [] = False"
| "prefixCI (c # cs) (d # ds) = (lowerChar c = lowerChar d \<and> prefixCI cs ds)"

fun containsCI :: "string \<Rightarrow> string \<Rightarrow> bool" where
  "containsCI p [] = (p = [])"
| "containsCI p (d # ds) = (prefixCI p (d # ds) \<or> containsCI p ds)"

definition plainTextHolds :: "cond \<Rightarrow> string \<Rightarrow> bool" where
  "plainTextHolds c s = (case c of RegexI p \<Rightarrow> containsCI p s | _ \<Rightarrow> False)"

fun strLe :: "string \<Rightarrow> string \<Rightarrow> bool" where
  "strLe [] s = True"
| "strLe (c # cs) [] = False"
| "strLe (c # cs) (d # ds) =
     ((of_char c :: nat) < of_char d \<or> (c = d \<and> strLe cs ds))"

fun fieldLe :: "fieldval \<Rightarrow> fieldval \<Rightarrow> bool" where
  "fieldLe VNull b = True"
| "fieldLe (VNum x) VNull = False"
| "fieldLe (VNum x) (VNum y) = (x \<le> y)"
| "fieldLe (VNum x) (VStr t) = True"
| "fieldLe (VStr s) (VStr t) = strLe s t"
| "fieldLe (VStr s) b = False"

fun insertDoc :: "(recipe \<Rightarrow> recipe \<Rightarrow> bool) \<Rightarrow> recipe \<Rightarrow> recipe list \<Rightarrow> recipe list" where
  "insertDoc le x [] = [x]"
| "insertDoc le x (y # ys) = (if le x y then x # y # ys else y # insertDoc le x ys)"

definition sortByField :: "sort_spec \<Rightarrow> recipe list \<Rightarrow> recipe list" where
  "sortByField srt xs =
     (let le = (\<lambda>a b. if snd srt = 1 then fieldLe (getField a (fst srt)) (getField b (fst srt))
                       else fieldLe (getField b (fst srt)) (getField a (fst srt)))
      in foldr (insertDoc le) xs [])"

definition refEngine :: engine where
  "refEngine =
    \<lparr>textHolds = plainTextHolds, sortDocs = sortByField, refuses = (\<lambda>q. False),
     refusesSort = (\<lambda>s. False)\<rparr>"

text \<open>Twelve recipes with distinct ratings, and the request of the list scenario.\<close>

definition sampleRecipe :: "string \<Rightarrow> rat \<Rightarrow> recipe" where
  "sampleRecipe t r =
     \<lparr>title = t, cuisine = ''American'', rating = Some r, prep_time = Some 10,
      cook_time = Some 20, total_time = Some 30, description = [], nutrients = [],
      serves = [], ingredients = [], instructions = [], url = []\<rparr>"

definition sampleDb :: "recipe list" where
  "sampleDb = map (\<lambda>(t, n). sampleRecipe t (of_nat n / 4))
     [(''a'', 7), (''b'', 2), (''c'', 12), (''d'', 5), (''e'', 9), (''f'', 1),
      (''g'', 10), (''h'', 4), (''i'', 8), (''j'', 3), (''k'', 11), (''l'', 6)]"

definition scenario :: params where
  "scenario = [''page'' \<mapsto> ''2'', ''limit'' \<mapsto> ''5'', ''sortBy'' \<mapsto> ''rating'',
               ''sortOrder'' \<mapsto> ''asc'']"

text \<open>
  An entry of the data set with a title and a cuisine only, a small data set, and the
  document stored for its first entry.
\<close>

definition bareRecipe :: "string \<Rightarrow> string \<Rightarrow> raw_recipe" where
  "bareRecipe t c =
     \<lparr>raw_title = Some t, raw_cuisine = Some c,
      raw_rating = None, raw_prep_time = None, raw_cook_time = None, raw_total_time = None,
      raw_description = None, raw_ingredients = None, raw_instructions = None,
      raw_nutrients = None, raw_serves = None, raw_URL = None, raw_Continent = None,
      raw_Country_State = None\<rparr>"

definition sampleData :: "(string \<times> raw_recipe option) list" where
  "sampleData = [(''0'', Some (bareRecipe '' Pie '' ''American'')), (''1'', None),
                 (''2'', Some (bareRecipe [] ''Thai''))]"

definition pieDoc :: recipe where
  "pieDoc = \<lparr>title = ''Pie'', cuisine = ''American'', rating = Some 0, prep_time = Some 0,
      cook_time = Some 0, total_time = Some 0, description = [], nutrients = [],
      serves = [], ingredients = [], instructions = [], url = []\<rparr>"

section \<open>Basic facts about the parsers\<close>

lemma parseFloat_empty: "parseFloat [] = NaN"
  by (simp add: parseFloat_def)

lemma handleNumberFilter_empty: "handleNumberFilter [] = None"
  by (simp add: handleNumberFilter_def parseFloat_empty)

section \<open>The seed script's defaults\<close>

text \<open>The loop keeps exactly the formatted entries, whatever their keys.\<close>

lemma formatRecipes_set:
  "set (formatRecipes es) = {f. \<exists>k e. (k, e) \<in> set es \<and> formatRecipe e = Some f}"
proof (induction es)
  case Nil
  then show ?case by simp
next
  case (Cons a es)
  obtain k e where a: "a = (k, e)" by (cases a)
  show ?case
    unfolding a using Cons.IH by (cases "formatRecipe e") auto
qed

lemma validateAll_Inr: "validateAll fs = Inr ds \<Longrightarrow> map validateDoc fs = map Inr ds"
  by (induction fs arbitrary: ds) (auto split: sum.splits)

lemma validateAll_intro: "map validateDoc fs = map Inr ds \<Longrightarrow> validateAll fs = Inr ds"
proof (induction fs arbitrary: ds)
  case Nil
  then show ?case by simp
next
  case (Cons f fs)
  from Cons.prems obtain d ds' where ds: "ds = d # ds'" and d: "validateDoc f = Inr d"
    and rest: "map validateDoc fs = map Inr ds'"
    by (cases ds) auto
  from Cons.IH [OF rest] d ds show ?case by simp
qed

lemma validateAll_Inr_iff: "validateAll fs = Inr ds \<longleftrightarrow> map validateDoc fs = map Inr ds"
  using validateAll_Inr validateAll_intro by blast

lemma insertMany_Inr_iff:
  "insertMany batch db = Inr db' \<longleftrightarrow>
     (\<exists>ds. map validateDoc batch = map Inr ds \<and> db' = db @ ds)"
  by (auto simp: insertMany_def validateAll_Inr_iff [symmetric] split: sum.splits)

text \<open>
  However the run ends, the collection holds the documents of a prefix of the formatted
  list, and of the whole list when every batch was inserted.
\<close>

lemma insertBatches_prefix:
  "\<exists>n ds. map validateDoc (take n fs) = map Inr ds
     \<and> (case insertBatches fs db of
           Inr db' \<Rightarrow> db' = db @ ds \<and> length fs \<le> n
         | Inl (e, db') \<Rightarrow> db' = db @ ds)"
proof (induction fs db rule: insertBatches.induct)
  case (1 fs db)
  show ?case
  proof (cases "fs = []")
    case True
    then have "insertBatches fs db = Inr db" by (subst insertBatches.simps) simp
    with True show ?thesis by (intro exI [of _ 0] exI [of _ "[]"]) simp
  next
    case ne: False
    show ?thesis
    proof (cases "insertMany (take batchSize fs) db")
      case (Inl e)
      with ne have "insertBatches fs db = Inl (e, db)" by (subst insertBatches.simps) simp
      then show ?thesis by (intro exI [of _ 0] exI [of _ "[]"]) simp
    next
      case (Inr db')
      then obtain ds1 where m1: "map validateDoc (take batchSize fs) = map Inr ds1"
        and db': "db' = db @ ds1"
        by (auto simp: insertMany_Inr_iff)
      from "1.IH" [OF ne Inr] obtain n ds2
        where m2: "map validateDoc (take n (drop batchSize fs)) = map Inr ds2"
          and r: "case insertBatches (drop batchSize fs) db' of
                    Inr db'' \<Rightarrow> db'' = db' @ ds2 \<and> length (drop batchSize fs) \<le> n
                  | Inl (e, db'') \<Rightarrow> db'' = db' @ ds2"
        by blast
      have unf: "insertBatches fs db = insertBatches (drop batchSize fs) db'"
        using ne Inr by (subst insertBatches.simps) simp
      have "map validateDoc (take (batchSize + n) fs) = map Inr (ds1 @ ds2)"
        using m1 m2 by (simp add: take_add)
      moreover have "case insertBatches fs db of
           Inr db'' \<Rightarrow> db'' = db @ (ds1 @ ds2) \<and> length fs \<le> batchSize + n
         | Inl (e, db'') \<Rightarrow> db'' = db @ (ds1 @ ds2)"
        unfolding unf using r db' by (auto split: sum.splits prod.splits)
      ultimately show ?thesis by blast
    qed
  qed
qed

lemma insertBatches_all_valid:
  "\<forall>f \<in> set fs. validationErrors (castDoc f) = [] \<Longrightarrow>
   insertBatches fs db = Inr (db @ map castDoc fs)"
proof (induction fs db rule: insertBatches.induct)
  case (1 fs db)
  show ?case
  proof (cases "fs = []")
    case True
    then show ?thesis by (subst insertBatches.simps) simp
  next
    case ne: False
    have v: "validateDoc f = Inr (castDoc f)" if "f \<in> set fs" for f
      using that "1.prems" by (simp add: validateDoc_def)
    have "map validateDoc (take batchSize fs) = map Inr (map castDoc (take batchSize fs))"
      using v by (auto dest: in_set_takeD)
    then have im: "insertMany (take batchSize fs) db = Inr (db @ map castDoc (take batchSize fs))"
      by (simp add: insertMany_Inr_iff)
    have "\<forall>f \<in> set (drop batchSize fs). validationErrors (castDoc f) = []"
      using "1.prems" by (auto dest: in_set_dropD)
    from "1.IH" [OF ne im this]
    have "insertBatches (drop batchSize fs) (db @ map castDoc (take batchSize fs))
            = Inr (db @ map castDoc (take batchSize fs) @ map castDoc (drop batchSize fs))"
      by simp
    moreover have "map castDoc (take batchSize fs) @ map castDoc (drop batchSize fs) = map castDoc fs"
      by (simp flip: map_append)
    ultimately show ?thesis using ne im by (subst insertBatches.simps) simp
  qed
qed

lemma formatRecipe_Some:
  "formatRecipe e = Some f \<Longrightarrow> \<exists>r. e = Some r \<and> truthy (raw_title r)"
  by (auto simp: formatRecipe_def split: option.splits if_splits)

lemma formatRecipe_truthy: "truthy (raw_title r) \<Longrightarrow> \<exists>f. formatRecipe (Some r) = Some f"
  by (simp add: formatRecipe_def)

lemma storedFrom_iff:
  "storedFrom r d \<longleftrightarrow> (\<exists>f. formatRecipe (Some r) = Some f \<and> validateDoc f = Inr d)"
  by (simp add: storedFrom_def split: option.splits)

lemma validateDoc_Inr:
  "validateDoc f = Inr d \<longleftrightarrow> d = castDoc f \<and> validationErrors (castDoc f) = []"
  by (auto simp: validateDoc_def Let_def)

lemma formatRecipe_fields:
  assumes "raw_title r = Some t" and "t \<noteq> []"
  shows "\<exists>f. formatRecipe (Some r) = Some f \<and> title f = t
           \<and> (raw_total_time r = None \<longrightarrow>
                total_time f = Some ((case raw_prep_time r of None \<Rightarrow> 0 | Some x \<Rightarrow> x)
                                    + (case raw_cook_time r of None \<Rightarrow> 0 | Some y \<Rightarrow> y)))
           \<and> (raw_rating r = None \<longrightarrow> rating f = Some 0)
           \<and> (raw_prep_time r = None \<longrightarrow> prep_time f = Some 0)
           \<and> (raw_cook_time r = None \<longrightarrow> cook_time f = Some 0)
           \<and> (raw_ingredients r = None \<longrightarrow> ingredients f = [])
           \<and> (raw_instructions r = None \<longrightarrow> instructions f = [])"
  using assms
  by (simp add: formatRecipe_def truthy_def strOr_def numOr_def objOr_def split: option.splits)

lemma castDoc_fields:
  "title (castDoc f) = trim (title f)" "rating (castDoc f) = rating f"
  "prep_time (castDoc f) = prep_time f" "cook_time (castDoc f) = cook_time f"
  "total_time (castDoc f) = total_time f" "ingredients (castDoc f) = ingredients f"
  "instructions (castDoc f) = instructions f"
  by (simp_all add: castDoc_def)

lemma valid_title: "validationErrors d = [] \<Longrightarrow> title d \<noteq> []"
  by (auto simp: validationErrors_def split: if_splits)

lemma storedFrom_fields:
  assumes "storedFrom r d"
  shows "(\<exists>t. raw_title r = Some t \<and> title d = trim t \<and> title d \<noteq> [])
       \<and> (raw_total_time r = None \<longrightarrow>
            total_time d = Some ((case raw_prep_time r of None \<Rightarrow> 0 | Some x \<Rightarrow> x)
                                + (case raw_cook_time r of None \<Rightarrow> 0 | Some y \<Rightarrow> y)))
       \<and> (raw_rating r = None \<longrightarrow> rating d = Some 0)
       \<and> (raw_prep_time r = None \<longrightarrow> prep_time d = Some 0)
       \<and> (raw_cook_time r = None \<longrightarrow> cook_time d = Some 0)
       \<and> (raw_total_time r = None \<and> raw_prep_time r = None \<and> raw_cook_time r = None \<longrightarrow>
            total_time d = Some 0)
       \<and> (raw_ingredients r = None \<longrightarrow> ingredients d = [])
       \<and> (raw_instructions r = None \<longrightarrow> instructions d = [])"
proof -
  from assms obtain f where f: "formatRecipe (Some r) = Some f"
    and d: "d = castDoc f" and v: "validationErrors (castDoc f) = []"
    by (auto simp: storedFrom_iff validateDoc_Inr)
  from f obtain r' where "Some r = Some r'" and "truthy (raw_title r')"
    by (blast dest: formatRecipe_Some)
  then obtain t where t: "raw_title r = Some t" "t \<noteq> []"
    by (cases "raw_title r") (simp_all add: truthy_def)
  from formatRecipe_fields [OF t] f
  have ff: "title f = t"
    "raw_total_time r = None \<longrightarrow>
       total_time f = Some ((case raw_prep_time r of None \<Rightarrow> 0 | Some x \<Rightarrow> x)
                           + (case raw_cook_time r of None \<Rightarrow> 0 | Some y \<Rightarrow> y))"
    "raw_rating r = None \<longrightarrow> rating f = Some 0"
    "raw_prep_time r = None \<longrightarrow> prep_time f = Some 0"
    "raw_cook_time r = None \<longrightarrow> cook_time f = Some 0"
    "raw_ingredients r = None \<longrightarrow> ingredients f = []"
    "raw_instructions r = None \<longrightarrow> instructions f = []"
    by simp_all
  have ne: "title d \<noteq> []" unfolding d using v by (rule valid_title)
  have 1: "\<exists>t. raw_title r = Some t \<and> title d = trim t \<and> title d \<noteq> []"
    using t(1) ne ff(1) by (simp add: d castDoc_fields)
  have 2: "raw_total_time r = None \<and> raw_prep_time r = None \<and> raw_cook_time r = None \<longrightarrow>
            total_time d = Some 0"
    using ff(2) by (simp add: d castDoc_fields)
  show ?thesis
    using 1 2 ff(2-7) unfolding d castDoc_fields by (intro conjI)
qed

text \<open>
  Claim C8. Run the seed script on a data set, the connection succeeding. Every
  document in the collection afterwards is the stored form of an entry of the data set,
  and when the script exits with code 0 every entry with a title has its stored form in
  the collection; it does exit with code 0 when every formatted entry passes the
  schema's validators. In a stored form, \<^verbatim>\<open>total_time\<close> of an entry without one is the
  sum of its \<^verbatim>\<open>prep_time\<close> and \<^verbatim>\<open>cook_time\<close>, each read as 0 when missing; every
  missing numeric field is 0 and missing \<^verbatim>\<open>ingredients\<close> and \<^verbatim>\<open>instructions\<close> are
  the empty list. So the stored form of an entry with only a title and a cuisine has
  rating 0, all three times 0 and both lists empty.
\<close>

theorem seed_defaults:
  assumes "seedDatabase True recipeData db0 = (code, db)"
  shows "(\<forall>d \<in> set db. \<exists>k r. (k, Some r) \<in> set recipeData \<and> storedFrom r d)
       \<and> (code = 0 \<longrightarrow>
            (\<forall>k r. (k, Some r) \<in> set recipeData \<and> truthy (raw_title r) \<longrightarrow>
                   (\<exists>d \<in> set db. storedFrom r d)))
       \<and> ((\<forall>f \<in> set (formatRecipes recipeData). validationErrors (castDoc f) = []) \<longrightarrow> code = 0)
       \<and> (\<forall>r d. storedFrom r d \<longrightarrow>
            (\<exists>t. raw_title r = Some t \<and> title d = trim t \<and> title d \<noteq> [])
          \<and> (raw_total_time r = None \<longrightarrow>
               total_time d = Some ((case raw_prep_time r of None \<Rightarrow> 0 | Some x \<Rightarrow> x)
                                   + (case raw_cook_time r of None \<Rightarrow> 0 | Some y \<Rightarrow> y)))
          \<and> (raw_rating r = None \<longrightarrow> rating d = Some 0)
          \<and> (raw_prep_time r = None \<longrightarrow> prep_time d = Some 0)
          \<and> (raw_cook_time r = None \<longrightarrow> cook_time d = Some 0)
          \<and> (raw_total_time r = None \<and> raw_prep_time r = None \<and> raw_cook_time r = None \<longrightarrow>
               total_time d = Some 0)
          \<and> (raw_ingredients r = None \<longrightarrow> ingredients d = [])
          \<and> (raw_instructions r = None \<longrightarrow> instructions d = []))"
proof -
  let ?fs = "formatRecipes recipeData"
  obtain n ds where m: "map validateDoc (take n ?fs) = map Inr ds"
    and r: "case insertBatches ?fs [] of
              Inr db' \<Rightarrow> db' = [] @ ds \<and> length ?fs \<le> n
            | Inl (e, db') \<Rightarrow> db' = [] @ ds"
    using insertBatches_prefix [of ?fs "[]"] by blast
  have db: "db = ds" and full: "code = 0 \<Longrightarrow> length ?fs \<le> n"
    using assms r by (auto simp: seedDatabase_def split: sum.splits prod.splits)
  have 1: "\<exists>k r. (k, Some r) \<in> set recipeData \<and> storedFrom r d" if "d \<in> set db" for d
  proof -
    from that db have "Inr d \<in> set (map validateDoc (take n ?fs))"
      unfolding m by simp
    then obtain f where f: "f \<in> set ?fs" and v: "validateDoc f = Inr d"
      by (auto dest: in_set_takeD)
    from f obtain k e where ke: "(k, e) \<in> set recipeData" and fe: "formatRecipe e = Some f"
      by (auto simp: formatRecipes_set)
    from fe obtain r0 where "e = Some r0" by (auto dest: formatRecipe_Some)
    with ke fe v show ?thesis by (auto simp: storedFrom_iff)
  qed
  have 2: "\<exists>d \<in> set db. storedFrom r d"
    if c: "code = 0" and ke: "(k, Some r) \<in> set recipeData" and tr: "truthy (raw_title r)" for k r
  proof -
    from tr obtain f where fe: "formatRecipe (Some r) = Some f"
      by (auto dest: formatRecipe_truthy)
    with ke have "f \<in> set ?fs" by (auto simp: formatRecipes_set)
    moreover have "take n ?fs = ?fs" using full [OF c] by simp
    ultimately have "validateDoc f \<in> set (map Inr ds)"
      using m by (metis image_eqI set_map)
    then obtain d where "d \<in> set ds" "validateDoc f = Inr d" by auto
    with fe db show ?thesis by (auto simp: storedFrom_iff)
  qed
  have 3: "code = 0" if "\<forall>f \<in> set ?fs. validationErrors (castDoc f) = []"
    using assms insertBatches_all_valid [OF that, of "[]"] by (simp add: seedDatabase_def)
  have a: "\<forall>d \<in> set db. \<exists>k r. (k, Some r) \<in> set recipeData \<and> storedFrom r d"
    using 1 by blast
  have b: "code = 0 \<longrightarrow>
            (\<forall>k r. (k, Some r) \<in> set recipeData \<and> truthy (raw_title r) \<longrightarrow>
                   (\<exists>d \<in> set db. storedFrom r d))"
    using 2 by blast
  have c: "(\<forall>f \<in> set ?fs. validationErrors (castDoc f) = []) \<longrightarrow> code = 0"
    using 3 by blast
  show ?thesis
    by (intro conjI a b c allI impI storedFrom_fields)
qed

lemma sampleData_run:
  "seedDatabase True sampleData [sampleRecipe ''old'' 1] = (0, [pieDoc])"
  by code_simp

text \<open>
  An entry whose title is white space only is formatted, fails \<^verbatim>\<open>required\<close> once
  trimmed, and the rejected batch leaves the collection empty.
\<close>

lemma blank_title_stores_nothing:
  "seedDatabase True [(''0'', Some (bareRecipe ''   '' ''American''))] [] = (1, [])"
  by code_simp

theorem seed_defaults_witness:
  "seedDatabase True sampleData [sampleRecipe ''old'' 1] = (0, [pieDoc])
   \<and> storedFrom (bareRecipe '' Pie '' ''American'') pieDoc
   \<and> rating pieDoc = Some 0 \<and> prep_time pieDoc = Some 0 \<and> cook_time pieDoc = Some 0
   \<and> total_time pieDoc = Some 0 \<and> ingredients pieDoc = [] \<and> instructions pieDoc = []"
proof -
  note t = seed_defaults [OF sampleData_run]
  have in_data: "(''0'', Some (bareRecipe '' Pie '' ''American'')) \<in> set sampleData"
    by (simp add: sampleData_def)
  have tr: "truthy (raw_title (bareRecipe '' Pie '' ''American''))"
    by (simp add: bareRecipe_def truthy_def)
  from t [THEN conjunct2, THEN conjunct1] in_data tr
  have "\<exists>d \<in> set [pieDoc]. storedFrom (bareRecipe '' Pie '' ''American'') d"
    by blast
  then have s: "storedFrom (bareRecipe '' Pie '' ''American'') pieDoc" by simp
  have none: "raw_rating (bareRecipe '' Pie '' ''American'') = None"
    "raw_prep_time (bareRecipe '' Pie '' ''American'') = None"
    "raw_cook_time (bareRecipe '' Pie '' ''American'') = None"
    "raw_total_time (bareRecipe '' Pie '' ''American'') = None"
    "raw_ingredients (bareRecipe '' Pie '' ''American'') = None"
    "raw_instructions (bareRecipe '' Pie '' ''American'') = None"
    by (simp_all add: bareRecipe_def)
  from t [THEN conjunct2, THEN conjunct2, THEN conjunct2] s
  have "rating pieDoc = Some 0 \<and> prep_time pieDoc = Some 0 \<and> cook_time pieDoc = Some 0
   \<and> total_time pieDoc = Some 0 \<and> ingredients pieDoc = [] \<and> instructions pieDoc = []"
    using none by blast
  with sampleData_run s show ?thesis by (intro conjI) simp_all
qed


section \<open>The sort object\<close>

lemma sortObject_dir:
  "snd (sortObject p) = (if p ''sortOrder'' = Some ''asc'' then 1 else - 1)"
  by (simp add: sortObject_def)

lemma sortObject_field: "fst (sortObject p) = strOr (p ''sortBy'') ''rating''"
  by (simp add: sortObject_def)

lemma loc_sort_mkLocals: "loc_sort (mkLocals p q) = sortObject p"
  by (simp add: mkLocals_def Let_def)

text \<open>
  Claim C7. In each of the three handlers the sort direction handed to the store is
  ascending (1) when \<^verbatim>\<open>sortOrder\<close> is exactly the string \<^verbatim>\<open>asc\<close> and descending (-1)
  for every other value and when it is absent; the sort field is \<^verbatim>\<open>rating\<close> when
  \<^verbatim>\<open>sortBy\<close> is absent, and the given field when it is a non-empty string.
\<close>

theorem sort_contract:
  assumes "L \<in> {getRecipes_locals, searchRecipes_B1_locals, searchRecipes_B2_locals}"
  shows "(p ''sortOrder'' = Some ''asc'' \<longrightarrow> snd (loc_sort (L p)) = 1)
       \<and> (p ''sortOrder'' \<noteq> Some ''asc'' \<longrightarrow> snd (loc_sort (L p)) = - 1)
       \<and> (p ''sortBy'' = None \<longrightarrow> fst (loc_sort (L p)) = ''rating'')
       \<and> (\<forall>s. p ''sortBy'' = Some s \<and> s \<noteq> [] \<longrightarrow> fst (loc_sort (L p)) = s)"
  using assms
  by (auto simp: getRecipes_locals_def searchRecipes_B1_locals_def searchRecipes_B2_locals_def
        loc_sort_mkLocals sortObject_dir sortObject_field strOr_def)

theorem sort_contract_witness:
  "snd (loc_sort (searchRecipes_B2_locals [''sortOrder'' \<mapsto> ''ASC''])) = - 1
   \<and> fst (loc_sort (searchRecipes_B2_locals [''sortOrder'' \<mapsto> ''ASC''])) = ''rating''
   \<and> snd (loc_sort (getRecipes_locals [''sortOrder'' \<mapsto> ''asc'', ''sortBy'' \<mapsto> ''title''])) = 1
   \<and> fst (loc_sort (getRecipes_locals [''sortOrder'' \<mapsto> ''asc'', ''sortBy'' \<mapsto> ''title''])) = ''title''"
  using sort_contract [of searchRecipes_B2_locals "[''sortOrder'' \<mapsto> ''ASC'']"]
    sort_contract [of getRecipes_locals "[''sortOrder'' \<mapsto> ''asc'', ''sortBy'' \<mapsto> ''title'']"]
  by simp


section \<open>The filter object of the list endpoint\<close>

lemmas parse_eval =
  parseFloat_def parseInt10_def isSpace_def isDigit_def digitsVal_def digitVal_def scale10_def

lemma parseFloat_null: "parseFloat ''null'' = NaN"
  by (simp add: parseFloat_def isSpace_def isDigit_def)

lemma parseFloat_undefined: "parseFloat ''undefined'' = NaN"
  by (simp add: parseFloat_def isSpace_def isDigit_def)

lemma handleNumberFilter_parsable:
  "parseFloat s \<noteq> NaN \<Longrightarrow> handleNumberFilter s = Some (parseFloat s)"
  by (auto simp: handleNumberFilter_def parseFloat_null parseFloat_undefined)

lemma parsable_nonempty: "parseFloat s \<noteq> NaN \<Longrightarrow> s \<noteq> []"
  using parseFloat_empty by auto

lemma getRecipes_query_unfold:
  "getRecipes_query p =
     numericFilter p ''rating'' (numericFilter p ''total_time''
       (numericFilter p ''cook_time'' (numericFilter p ''prep_time'' (getRecipes_thresholds p))))"
  by (simp add: getRecipes_query_def)

lemma numericFilter_other: "k \<noteq> field \<Longrightarrow> numericFilter p field q k = q k"
  by (simp add: numericFilter_def split: option.splits)

lemma numericFilter_same:
  "numericFilter p field q field =
     (case p field of None \<Rightarrow> q field
      | Some s \<Rightarrow> (case handleNumberFilter s of None \<Rightarrow> q field | Some n \<Rightarrow> Some (Equals n)))"
  by (simp add: numericFilter_def split: option.splits)

lemma thresholds_rating:
  "getRecipes_thresholds p ''rating'' =
     (case p ''rating'' of None \<Rightarrow> None
      | Some s \<Rightarrow> if s = [] then None else Some (Gte (parseFloat s)))"
  by (simp add: getRecipes_thresholds_def ifTruthy_def Let_def split: option.splits)

lemma thresholds_total_time:
  "getRecipes_thresholds p ''total_time'' =
     (case p ''maxTotalTime'' of None \<Rightarrow> None
      | Some s \<Rightarrow> if s = [] then None else Some (Lte (intNum (parseInt10 s))))"
  by (simp add: getRecipes_thresholds_def ifTruthy_def Let_def split: option.splits)

lemma thresholds_prep_cook:
  "getRecipes_thresholds p ''prep_time'' = None" "getRecipes_thresholds p ''cook_time'' = None"
  by (simp_all add: getRecipes_thresholds_def ifTruthy_def Let_def split: option.splits)

lemma matches_key: "matches E q r \<Longrightarrow> k \<in> set filterKeys \<Longrightarrow> keyHolds E q r k"
  by (simp add: matches_def list_all_iff)

lemma keyHolds_Equals_num:
  assumes "q k = Some (Equals v)" and "keyHolds E q r k" and "getField r k = numField x"
  shows "\<exists>y. x = Some y \<and> v = Num y"
  using assms by (cases x) (simp_all add: keyHolds_def condHolds_def numField_def)

lemma getField_rating: "getField r ''rating'' = numField (rating r)"
  by (simp add: getField_def)

lemma getField_total_time: "getField r ''total_time'' = numField (total_time r)"
  by (simp add: getField_def)

text \<open>
  Claim C3. In the list endpoint, when \<^verbatim>\<open>rating\<close> is given and parses to a number,
  the minimum-rating block writes \<^verbatim>\<open>{$gte: value}\<close> under the key \<^verbatim>\<open>rating\<close>, the
  numeric-filter pass then writes the bare value under the same key, and the filter
  handed to the store holds the exact-equality condition: whatever the store's engine,
  a document that matches has a rating equal to the value.
\<close>

theorem rating_equality_clobbers_threshold:
  assumes "p ''rating'' = Some s" and "parseFloat s \<noteq> NaN"
  shows "getRecipes_thresholds p ''rating'' = Some (Gte (parseFloat s))
       \<and> getRecipes_query p ''rating'' = Some (Equals (parseFloat s))
       \<and> (\<forall>E r. matches E (getRecipes_query p) r \<longrightarrow>
             (\<exists>x. rating r = Some x \<and> parseFloat s = Num x))"
proof -
  have ne: "s \<noteq> []" using assms(2) by (rule parsable_nonempty)
  have thr: "getRecipes_thresholds p ''rating'' = Some (Gte (parseFloat s))"
    using assms(1) ne by (simp add: thresholds_rating)
  have fin: "getRecipes_query p ''rating'' = Some (Equals (parseFloat s))"
    using assms by (simp add: getRecipes_query_unfold numericFilter_same handleNumberFilter_parsable)
  have "\<exists>x. rating r = Some x \<and> parseFloat s = Num x"
    if m: "matches E (getRecipes_query p) r" for E r
  proof -
    have "keyHolds E (getRecipes_query p) r ''rating''"
      using m by (rule matches_key) (simp add: filterKeys_def)
    with fin show ?thesis
      by (rule keyHolds_Equals_num) (rule getField_rating)
  qed
  with thr fin show ?thesis by blast
qed

theorem rating_equality_clobbers_threshold_witness:
  "getRecipes_thresholds [''rating'' \<mapsto> ''4''] ''rating'' = Some (Gte (Num 4))
   \<and> getRecipes_query [''rating'' \<mapsto> ''4''] ''rating'' = Some (Equals (Num 4))
   \<and> matches refEngine (getRecipes_query [''rating'' \<mapsto> ''4'']) (sampleRecipe ''x'' 4)
   \<and> \<not> matches refEngine (getRecipes_query [''rating'' \<mapsto> ''4'']) (sampleRecipe ''y'' 5)"
proof -
  have pf: "parseFloat ''4'' = Num 4" by (simp add: parse_eval)
  note t = rating_equality_clobbers_threshold [of "[''rating'' \<mapsto> ''4'']" "''4''"]
  have a: "getRecipes_thresholds [''rating'' \<mapsto> ''4''] ''rating'' = Some (Gte (Num 4))"
    and b: "getRecipes_query [''rating'' \<mapsto> ''4''] ''rating'' = Some (Equals (Num 4))"
    using t by (simp_all add: pf)
  have c: "matches refEngine (getRecipes_query [''rating'' \<mapsto> ''4'']) (sampleRecipe ''x'' 4)"
    by code_simp
  have d: "\<not> matches refEngine (getRecipes_query [''rating'' \<mapsto> ''4'']) (sampleRecipe ''y'' 5)"
  proof
    assume "matches refEngine (getRecipes_query [''rating'' \<mapsto> ''4'']) (sampleRecipe ''y'' 5)"
    with t have "rating (sampleRecipe ''y'' 5) = Some 4" by (simp add: pf)
    then show False by (simp add: sampleRecipe_def)
  qed
  from a b c d show ?thesis by (intro conjI)
qed

lemma numericFilter_cong:
  "p' field = p field \<Longrightarrow> numericFilter p' field q = numericFilter p field q"
  by (simp add: numericFilter_def)

lemma ifTruthy_other: "(\<And>s q'. f s q' k = q' k) \<Longrightarrow> ifTruthy v f q k = q k"
  by (simp add: ifTruthy_def split: option.splits)

lemma thresholds_maxTotalTime_other:
  assumes "k \<noteq> ''total_time''"
  shows "getRecipes_thresholds (p(''maxTotalTime'' := y)) k = getRecipes_thresholds p k"
proof -
  have "ifTruthy v (\<lambda>s q. q(''total_time'' \<mapsto> Lte (intNum (parseInt10 s)))) q k = q k" for v q
    using assms by (intro ifTruthy_other) simp
  then show ?thesis
    by (simp add: getRecipes_thresholds_def Let_def)
qed

lemma query_total_time_exact:
  assumes "p ''total_time'' = Some s" and "parseFloat s \<noteq> NaN"
  shows "getRecipes_query p ''total_time'' = Some (Equals (parseFloat s))"
  using assms
  by (simp add: getRecipes_query_unfold numericFilter_same numericFilter_other
        handleNumberFilter_parsable)

lemma numericFilter_pointwise:
  "q k = q' k \<Longrightarrow> numericFilter p f q k = numericFilter p f q' k"
  by (simp add: numericFilter_def split: option.splits)

lemma query_ignores_maxTotalTime:
  assumes "p ''total_time'' = Some s" and "parseFloat s \<noteq> NaN"
  shows "getRecipes_query (p(''maxTotalTime'' := y)) = getRecipes_query p"
proof (rule ext)
  fix k
  let ?p' = "p(''maxTotalTime'' := y)"
  have same: "numericFilter ?p' ''prep_time'' = numericFilter p ''prep_time''"
    "numericFilter ?p' ''cook_time'' = numericFilter p ''cook_time''"
    "numericFilter ?p' ''total_time'' = numericFilter p ''total_time''"
    "numericFilter ?p' ''rating'' = numericFilter p ''rating''"
    by (rule ext, rule numericFilter_cong, simp)+
  show "getRecipes_query ?p' k = getRecipes_query p k"
  proof (cases "k = ''total_time''")
    case True
    have "?p' ''total_time'' = Some s" using assms(1) by simp
    then have "getRecipes_query ?p' ''total_time'' = Some (Equals (parseFloat s))"
      using assms(2) by (rule query_total_time_exact)
    moreover have "getRecipes_query p ''total_time'' = Some (Equals (parseFloat s))"
      using assms by (rule query_total_time_exact)
    ultimately show ?thesis using True by simp
  next
    case False
    then have "getRecipes_thresholds ?p' k = getRecipes_thresholds p k"
      by (rule thresholds_maxTotalTime_other)
    then show ?thesis
      unfolding getRecipes_query_unfold same
      by (intro numericFilter_pointwise)
  qed
qed

text \<open>
  Claim C9. In the list endpoint, when \<^verbatim>\<open>maxTotalTime\<close> and \<^verbatim>\<open>total_time\<close> are both
  given and both parse, the \<^verbatim>\<open>maxTotalTime\<close> block writes \<^verbatim>\<open>{$lte: bound}\<close> under
  \<^verbatim>\<open>total_time\<close> and the numeric-filter pass replaces it by the bare \<^verbatim>\<open>total_time\<close>
  value: the final filter is the same whatever \<^verbatim>\<open>maxTotalTime\<close> is (or if it is
  removed), and a matching document has exactly that total time.
\<close>

theorem total_time_equality_clobbers_maxTotalTime:
  assumes "p ''maxTotalTime'' = Some m" and "parseInt10 m = Some n"
      and "p ''total_time'' = Some s" and "parseFloat s \<noteq> NaN"
  shows "getRecipes_thresholds p ''total_time'' = Some (Lte (Num (of_int n)))
       \<and> getRecipes_query p ''total_time'' = Some (Equals (parseFloat s))
       \<and> (\<forall>y. getRecipes_query (p(''maxTotalTime'' := y)) = getRecipes_query p)
       \<and> (\<forall>E r. matches E (getRecipes_query p) r \<longrightarrow>
             (\<exists>x. total_time r = Some x \<and> parseFloat s = Num x))"
proof -
  have "m \<noteq> []" using assms(2) by (auto simp: parseInt10_def)
  then have thr: "getRecipes_thresholds p ''total_time'' = Some (Lte (Num (of_int n)))"
    using assms(1,2) by (simp add: thresholds_total_time intNum_def)
  have fin: "getRecipes_query p ''total_time'' = Some (Equals (parseFloat s))"
    using assms(3,4) by (rule query_total_time_exact)
  have ign: "\<forall>y. getRecipes_query (p(''maxTotalTime'' := y)) = getRecipes_query p"
    using assms(3,4) by (simp add: query_ignores_maxTotalTime)
  have "\<exists>x. total_time r = Some x \<and> parseFloat s = Num x"
    if m: "matches E (getRecipes_query p) r" for E r
  proof -
    have "keyHolds E (getRecipes_query p) r ''total_time''"
      using m by (rule matches_key) (simp add: filterKeys_def)
    with fin show ?thesis
      by (rule keyHolds_Equals_num) (rule getField_total_time)
  qed
  with thr fin ign show ?thesis by blast
qed

theorem total_time_equality_clobbers_maxTotalTime_witness:
  "getRecipes_thresholds [''maxTotalTime'' \<mapsto> ''30'', ''total_time'' \<mapsto> ''45''] ''total_time''
     = Some (Lte (Num 30))
   \<and> getRecipes_query [''maxTotalTime'' \<mapsto> ''30'', ''total_time'' \<mapsto> ''45''] ''total_time''
     = Some (Equals (Num 45))
   \<and> getRecipes_query ([''maxTotalTime'' \<mapsto> ''30'', ''total_time'' \<mapsto> ''45''](''maxTotalTime'' := None))
     = getRecipes_query [''maxTotalTime'' \<mapsto> ''30'', ''total_time'' \<mapsto> ''45'']"
proof -
  let ?p = "[''maxTotalTime'' \<mapsto> ''30'', ''total_time'' \<mapsto> ''45'']"
  have pf: "parseFloat ''45'' = Num 45" by (simp add: parse_eval)
  have pi: "parseInt10 ''30'' = Some 30" by (simp add: parse_eval)
  have ne: "parseFloat ''45'' \<noteq> NaN" by (simp add: pf)
  have h1: "?p ''maxTotalTime'' = Some ''30''" and h2: "?p ''total_time'' = Some ''45''"
    by simp_all
  note t = total_time_equality_clobbers_maxTotalTime [OF h1 pi h2 ne]
  have a: "getRecipes_thresholds ?p ''total_time'' = Some (Lte (Num 30))"
    using t [THEN conjunct1] by (simp only: of_int_numeral)
  have b: "getRecipes_query ?p ''total_time'' = Some (Equals (Num 45))"
    using t [THEN conjunct2, THEN conjunct1] by (simp only: pf)
  have c: "getRecipes_query (?p(''maxTotalTime'' := None)) = getRecipes_query ?p"
    using t [THEN conjunct2, THEN conjunct2, THEN conjunct1] by (rule spec)
  show ?thesis using a b c by (intro conjI)
qed

lemma respond_castFails: "castFails (loc_query l) \<Longrightarrow> respond E db flag msg l = Err500 msg"
  by (simp add: respond_def find_docs_def checkQuery_def)

lemma castFails_key:
  "k \<in> set numberPaths \<Longrightarrow> q k = Some c \<Longrightarrow> operandIsNaN c \<Longrightarrow> castFails q"
  by (auto simp: castFails_def list_ex_iff intro!: bexI [of _ k])

lemma loc_query_mkLocals: "loc_query (mkLocals p q) = q"
  by (simp add: mkLocals_def Let_def)

lemma query_rating_null:
  assumes "p ''rating'' = Some s" and "s = ''null'' \<or> s = ''undefined''"
  shows "getRecipes_query p ''rating'' = Some (Gte NaN)"
proof -
  have "handleNumberFilter s = None" using assms(2) by (auto simp: handleNumberFilter_def)
  moreover have "parseFloat s = NaN" using assms(2) parseFloat_null parseFloat_undefined by auto
  moreover have "s \<noteq> []" using assms(2) by auto
  ultimately show ?thesis
    using assms(1)
    by (simp add: getRecipes_query_unfold numericFilter_same numericFilter_other thresholds_rating)
qed

text \<open>
  Claim C4, evaluated at \<^verbatim>\<open>rating=null\<close> and \<^verbatim>\<open>rating=undefined\<close>: the string is
  truthy, so the minimum-rating block has already written \<^verbatim>\<open>{$gte: NaN}\<close> under
  \<^verbatim>\<open>rating\<close> when the numeric-filter pass drops the value; the filter keeps that
  condition, the store rejects it and the request is answered with status 500.
\<close>

theorem rating_null_keeps_threshold:
  "getRecipes_query [''rating'' \<mapsto> ''null''] ''rating'' = Some (Gte NaN)
   \<and> getRecipes_query [''rating'' \<mapsto> ''undefined''] ''rating'' = Some (Gte NaN)
   \<and> getRecipes E db [''rating'' \<mapsto> ''null''] = Err500 ''Server error while fetching recipes''"
proof -
  have a: "getRecipes_query [''rating'' \<mapsto> ''null''] ''rating'' = Some (Gte NaN)"
    by (rule query_rating_null [where s = "''null''"]) simp_all
  have b: "getRecipes_query [''rating'' \<mapsto> ''undefined''] ''rating'' = Some (Gte NaN)"
    by (rule query_rating_null [where s = "''undefined''"]) simp_all
  have "castFails (getRecipes_query [''rating'' \<mapsto> ''null''])"
    using a by (intro castFails_key [of "''rating''" _ "Gte NaN"]) (simp_all add: numberPaths_def)
  then have "getRecipes E db [''rating'' \<mapsto> ''null'']
               = Err500 ''Server error while fetching recipes''"
    by (simp add: getRecipes_def getRecipes_locals_def respond_castFails loc_query_mkLocals)
  with a b show ?thesis by simp
qed

text \<open>
  For the numeric fields that no earlier block writes, \<^verbatim>\<open>null\<close> and \<^verbatim>\<open>undefined\<close>
  do leave the filter without a condition on the field.
\<close>

lemma null_dropped_without_threshold:
  assumes "p f = Some s" and "s = ''null'' \<or> s = ''undefined''"
  shows "f = ''prep_time'' \<or> f = ''cook_time'' \<Longrightarrow> getRecipes_query p f = None"
    and "f = ''total_time'' \<Longrightarrow> p ''maxTotalTime'' = None \<Longrightarrow> getRecipes_query p f = None"
proof -
  have h: "handleNumberFilter s = None" using assms(2) by (auto simp: handleNumberFilter_def)
  show "f = ''prep_time'' \<or> f = ''cook_time'' \<Longrightarrow> getRecipes_query p f = None"
    using assms(1) h
    by (auto simp: getRecipes_query_unfold numericFilter_same numericFilter_other thresholds_prep_cook)
  show "f = ''total_time'' \<Longrightarrow> p ''maxTotalTime'' = None \<Longrightarrow> getRecipes_query p f = None"
    using assms(1) h
    by (auto simp: getRecipes_query_unfold numericFilter_same numericFilter_other thresholds_total_time)
qed


section \<open>The filter object of the search endpoint with operators\<close>

lemma operatorFilter_other: "k \<noteq> key \<Longrightarrow> operatorFilter p name opName dflt key q k = q k"
  unfolding operatorFilter_def
  by (rule ifTruthy_other) (simp split: option.splits)

lemma operatorFilter_same:
  "operatorFilter p name opName dflt key q key =
     (case p name of None \<Rightarrow> q key
      | Some s \<Rightarrow> if s = [] then q key
                  else (case buildOperatorQuery s (strOr (p opName) dflt) of
                          None \<Rightarrow> q key | Some c \<Rightarrow> Some c))"
  by (simp add: operatorFilter_def ifTruthy_def split: option.splits)

lemma B2_text_keys:
  "k \<noteq> ''title'' \<Longrightarrow> k \<noteq> ''cuisine'' \<Longrightarrow>
   ifTruthy c (\<lambda>s q. q(''cuisine'' \<mapsto> RegexI s))
     (ifTruthy t (\<lambda>s q. q(''title'' \<mapsto> RegexI s)) Map.empty) k = None"
  by (simp add: ifTruthy_other)

lemma B2_key:
  assumes "(name, opName, dflt, key) \<in>
             {(''rating'', ''ratingOp'', ''gte'', ''rating''),
              (''calories'', ''caloriesOp'', ''gte'', ''nutrients.calories''),
              (''total_time'', ''timeOp'', ''lte'', ''total_time'')}"
  shows "searchRecipes_B2_query p key =
     (case p name of None \<Rightarrow> None
      | Some s \<Rightarrow> if s = [] then None else buildOperatorQuery s (strOr (p opName) dflt))"
  using assms
  by (auto simp: searchRecipes_B2_query_def Let_def operatorFilter_same operatorFilter_other
        B2_text_keys split: option.splits)

text \<open>
  Claim C5. In the search endpoint with operators, each of \<^verbatim>\<open>rating\<close>,
  \<^verbatim>\<open>calories\<close> (stored under \<^verbatim>\<open>nutrients.calories\<close>) and \<^verbatim>\<open>total_time\<close> that is given
  and parses is written under its key with the comparison its companion parameter
  names: \<^verbatim>\<open>gte\<close>, \<^verbatim>\<open>lte\<close> or \<^verbatim>\<open>eq\<close>. With the companion absent or empty the
  comparison is \<^verbatim>\<open>gte\<close> for rating and calories and \<^verbatim>\<open>lte\<close> for the total time; an
  unrecognised companion gives \<^verbatim>\<open>gte\<close>. A value that does not parse, like an absent
  one, leaves the filter without a condition under the key.
\<close>

theorem operator_filters:
  assumes "(name, opName, dflt, key) \<in>
             {(''rating'', ''ratingOp'', ''gte'', ''rating''),
              (''calories'', ''caloriesOp'', ''gte'', ''nutrients.calories''),
              (''total_time'', ''timeOp'', ''lte'', ''total_time'')}"
  shows "(\<forall>s. p name = Some s \<and> parseFloat s \<noteq> NaN \<longrightarrow>
            (p opName = Some ''gte'' \<longrightarrow> searchRecipes_B2_query p key = Some (Gte (parseFloat s)))
          \<and> (p opName = Some ''lte'' \<longrightarrow> searchRecipes_B2_query p key = Some (Lte (parseFloat s)))
          \<and> (p opName = Some ''eq'' \<longrightarrow> searchRecipes_B2_query p key = Some (Equals (parseFloat s)))
          \<and> (p opName \<in> {None, Some []} \<and> name \<noteq> ''total_time'' \<longrightarrow>
                searchRecipes_B2_query p key = Some (Gte (parseFloat s)))
          \<and> (p opName \<in> {None, Some []} \<and> name = ''total_time'' \<longrightarrow>
                searchRecipes_B2_query p key = Some (Lte (parseFloat s)))
          \<and> (\<forall>x. p opName = Some x \<and> x \<notin> {[], ''gte'', ''lte'', ''eq''} \<longrightarrow>
                searchRecipes_B2_query p key = Some (Gte (parseFloat s))))
       \<and> (\<forall>s. p name = Some s \<and> parseFloat s = NaN \<longrightarrow> searchRecipes_B2_query p key = None)
       \<and> (p name = None \<longrightarrow> searchRecipes_B2_query p key = None)"
proof -
  note k = B2_key [OF assms, of p]
  have d: "dflt = ''gte'' \<or> dflt = ''lte''" "name = ''total_time'' \<longleftrightarrow> dflt = ''lte''"
    using assms by auto
  have ne: "s \<noteq> []" if "parseFloat s \<noteq> NaN" for s using that by (rule parsable_nonempty)
  show ?thesis
    unfolding k using d
    by (auto simp: buildOperatorQuery_def strOr_def Let_def dest: ne split: option.splits)
qed

theorem operator_filters_witness:
  "searchRecipes_B2_query [''rating'' \<mapsto> ''4'', ''ratingOp'' \<mapsto> ''lte''] ''rating''
     = Some (Lte (Num 4))
   \<and> searchRecipes_B2_query [''rating'' \<mapsto> ''4''] ''rating'' = Some (Gte (Num 4))
   \<and> searchRecipes_B2_query [''calories'' \<mapsto> ''4'', ''caloriesOp'' \<mapsto> ''between'']
        ''nutrients.calories'' = Some (Gte (Num 4))
   \<and> searchRecipes_B2_query [''total_time'' \<mapsto> ''4''] ''total_time'' = Some (Lte (Num 4))
   \<and> searchRecipes_B2_query [''total_time'' \<mapsto> ''4'', ''timeOp'' \<mapsto> ''eq''] ''total_time''
        = Some (Equals (Num 4))
   \<and> searchRecipes_B2_query [''total_time'' \<mapsto> ''soon''] ''total_time'' = None"
proof -
  have pf: "parseFloat ''4'' = Num 4" "parseFloat ''soon'' = NaN" by (simp_all add: parse_eval)
  show ?thesis
    using
      operator_filters [of "''rating''" "''ratingOp''" "''gte''" "''rating''"
        "[''rating'' \<mapsto> ''4'', ''ratingOp'' \<mapsto> ''lte'']"]
      operator_filters [of "''rating''" "''ratingOp''" "''gte''" "''rating''"
        "[''rating'' \<mapsto> ''4'']"]
      operator_filters [of "''calories''" "''caloriesOp''" "''gte''" "''nutrients.calories''"
        "[''calories'' \<mapsto> ''4'', ''caloriesOp'' \<mapsto> ''between'']"]
      operator_filters [of "''total_time''" "''timeOp''" "''lte''" "''total_time''"
        "[''total_time'' \<mapsto> ''4'']"]
      operator_filters [of "''total_time''" "''timeOp''" "''lte''" "''total_time''"
        "[''total_time'' \<mapsto> ''4'', ''timeOp'' \<mapsto> ''eq'']"]
      operator_filters [of "''total_time''" "''timeOp''" "''lte''" "''total_time''"
        "[''total_time'' \<mapsto> ''soon'']"]
    by (simp add: pf)
qed


section \<open>The filter object of the search endpoint with thresholds\<close>

lemma ifTruthy_at:
  "ifTruthy v f q k = (case v of None \<Rightarrow> q k | Some s \<Rightarrow> if s = [] then q k else f s q k)"
  by (simp add: ifTruthy_def split: option.splits)

lemma maxTimeFilter_other: "k \<noteq> key \<Longrightarrow> maxTimeFilter key s q k = q k"
  by (simp add: maxTimeFilter_def split: option.splits)

lemma maxTimeFilter_same:
  "maxTimeFilter key s q key =
     (case parseInt10 s of None \<Rightarrow> q key
      | Some n \<Rightarrow> if 0 < n then Some (Lte (Num (of_int n))) else q key)"
  by (simp add: maxTimeFilter_def split: option.splits)

lemma minRatingFilter_other: "k \<noteq> ''rating'' \<Longrightarrow> minRatingFilter s q k = q k"
  by (simp add: minRatingFilter_def Let_def)

lemma B1_text_keys:
  "k \<noteq> ''$or'' \<Longrightarrow> k \<noteq> ''cuisine'' \<Longrightarrow>
   ifTruthy c (\<lambda>s q. q(''cuisine'' \<mapsto> RegexI s))
     (ifTruthy t (\<lambda>s q. q(''$or'' \<mapsto> AnyOf [(''title'', s), (''description'', s)])) Map.empty) k
   = None"
  by (simp add: ifTruthy_other)

lemma B1_rating:
  "searchRecipes_B1_query p ''rating'' =
     (case p ''minRating'' of None \<Rightarrow> None
      | Some s \<Rightarrow>
          if s \<noteq> [] \<and> parseFloat s \<noteq> NaN \<and> numLe (Num 1) (parseFloat s)
             \<and> numLe (parseFloat s) (Num 5)
          then Some (Gte (parseFloat s)) else None)"
proof -
  have "searchRecipes_B1_query p ''rating'' =
          ifTruthy (p ''minRating'') minRatingFilter
            (ifTruthy (p ''cuisine'') (\<lambda>s q. q(''cuisine'' \<mapsto> RegexI s))
              (ifTruthy (p ''q'')
                 (\<lambda>s q. q(''$or'' \<mapsto> AnyOf [(''title'', s), (''description'', s)])) Map.empty))
            ''rating''"
    by (simp add: searchRecipes_B1_query_def Let_def ifTruthy_other maxTimeFilter_other)
  also have "\<dots> = (case p ''minRating'' of None \<Rightarrow> None
      | Some s \<Rightarrow>
          if s \<noteq> [] \<and> parseFloat s \<noteq> NaN \<and> numLe (Num 1) (parseFloat s)
             \<and> numLe (parseFloat s) (Num 5)
          then Some (Gte (parseFloat s)) else None)"
    by (simp add: ifTruthy_at B1_text_keys minRatingFilter_def Let_def split: option.splits)
  finally show ?thesis .
qed


lemma B1_prep_time:
  "searchRecipes_B1_query p ''prep_time'' =
     (case p ''maxPrepTime'' of None \<Rightarrow> None
      | Some s \<Rightarrow>
          (case parseInt10 s of None \<Rightarrow> None
           | Some n \<Rightarrow> if s \<noteq> [] \<and> 0 < n then Some (Lte (Num (of_int n))) else None))"
  by (simp add: searchRecipes_B1_query_def Let_def ifTruthy_other maxTimeFilter_other
        ifTruthy_at [where k = "''prep_time''" and f = "maxTimeFilter ''prep_time''"]
        maxTimeFilter_same minRatingFilter_other B1_text_keys split: option.splits)

lemma B1_cook_time:
  "searchRecipes_B1_query p ''cook_time'' =
     (case p ''maxCookTime'' of None \<Rightarrow> None
      | Some s \<Rightarrow>
          (case parseInt10 s of None \<Rightarrow> None
           | Some n \<Rightarrow> if s \<noteq> [] \<and> 0 < n then Some (Lte (Num (of_int n))) else None))"
  by (simp add: searchRecipes_B1_query_def Let_def ifTruthy_other maxTimeFilter_other
        ifTruthy_at [where k = "''cook_time''" and f = "maxTimeFilter ''cook_time''"]
        maxTimeFilter_same minRatingFilter_other B1_text_keys split: option.splits)

lemma parseInt10_nonempty: "parseInt10 s = Some n \<Longrightarrow> s \<noteq> []"
  by (auto simp: parseInt10_def)

lemma in_range_iff:
  "v \<noteq> NaN \<and> numLe (Num 1) v \<and> numLe v (Num 5) \<longleftrightarrow> (\<exists>x. v = Num x \<and> 1 \<le> x \<and> x \<le> 5)"
  by (cases v) auto

text \<open>
  Claim C6. In the search endpoint with thresholds, the filter has a condition on
  \<^verbatim>\<open>rating\<close> exactly when \<^verbatim>\<open>minRating\<close> parses to a number between 1 and 5
  inclusive, and the condition is then \<^verbatim>\<open>{$gte: value}\<close>; a value out of that range
  (6, say) or one that does not parse leaves the filter without a rating condition.
  It has a condition on \<^verbatim>\<open>prep_time\<close> (on \<^verbatim>\<open>cook_time\<close>) exactly when
  \<^verbatim>\<open>maxPrepTime\<close> (\<^verbatim>\<open>maxCookTime\<close>) parses to an integer greater than 0, and the
  condition is then \<^verbatim>\<open>{$lte: value}\<close>.
\<close>

theorem search_thresholds_guarded:
  "(searchRecipes_B1_query p ''rating'' \<noteq> None \<longleftrightarrow>
      (\<exists>s x. p ''minRating'' = Some s \<and> parseFloat s = Num x \<and> 1 \<le> x \<and> x \<le> 5))
   \<and> (\<forall>s x. p ''minRating'' = Some s \<and> parseFloat s = Num x \<and> 1 \<le> x \<and> x \<le> 5 \<longrightarrow>
         searchRecipes_B1_query p ''rating'' = Some (Gte (Num x)))
   \<and> (searchRecipes_B1_query p ''prep_time'' \<noteq> None \<longleftrightarrow>
         (\<exists>s n. p ''maxPrepTime'' = Some s \<and> parseInt10 s = Some n \<and> 0 < n))
   \<and> (\<forall>s n. p ''maxPrepTime'' = Some s \<and> parseInt10 s = Some n \<and> 0 < n \<longrightarrow>
         searchRecipes_B1_query p ''prep_time'' = Some (Lte (Num (of_int n))))
   \<and> (searchRecipes_B1_query p ''cook_time'' \<noteq> None \<longleftrightarrow>
         (\<exists>s n. p ''maxCookTime'' = Some s \<and> parseInt10 s = Some n \<and> 0 < n))
   \<and> (\<forall>s n. p ''maxCookTime'' = Some s \<and> parseInt10 s = Some n \<and> 0 < n \<longrightarrow>
         searchRecipes_B1_query p ''cook_time'' = Some (Lte (Num (of_int n))))"
proof -
  have r2: "\<forall>s x. p ''minRating'' = Some s \<and> parseFloat s = Num x \<and> 1 \<le> x \<and> x \<le> 5 \<longrightarrow>
         searchRecipes_B1_query p ''rating'' = Some (Gte (Num x))"
    using parsable_nonempty by (auto simp: B1_rating)
  have r1: "searchRecipes_B1_query p ''rating'' \<noteq> None \<longleftrightarrow>
      (\<exists>s x. p ''minRating'' = Some s \<and> parseFloat s = Num x \<and> 1 \<le> x \<and> x \<le> 5)"
  proof
    assume "searchRecipes_B1_query p ''rating'' \<noteq> None"
    then obtain s where s: "p ''minRating'' = Some s"
      and "parseFloat s \<noteq> NaN \<and> numLe (Num 1) (parseFloat s) \<and> numLe (parseFloat s) (Num 5)"
      by (auto simp: B1_rating split: option.splits if_splits)
    then obtain x where "parseFloat s = Num x \<and> 1 \<le> x \<and> x \<le> 5"
      unfolding in_range_iff by blast
    with s show "\<exists>s x. p ''minRating'' = Some s \<and> parseFloat s = Num x \<and> 1 \<le> x \<and> x \<le> 5"
      by blast
  next
    assume "\<exists>s x. p ''minRating'' = Some s \<and> parseFloat s = Num x \<and> 1 \<le> x \<and> x \<le> 5"
    with r2 show "searchRecipes_B1_query p ''rating'' \<noteq> None" by auto
  qed
  have p2: "\<forall>s n. p ''maxPrepTime'' = Some s \<and> parseInt10 s = Some n \<and> 0 < n \<longrightarrow>
         searchRecipes_B1_query p ''prep_time'' = Some (Lte (Num (of_int n)))"
    using parseInt10_nonempty by (auto simp: B1_prep_time)
  have p1: "searchRecipes_B1_query p ''prep_time'' \<noteq> None \<longleftrightarrow>
         (\<exists>s n. p ''maxPrepTime'' = Some s \<and> parseInt10 s = Some n \<and> 0 < n)"
    using p2 by (auto simp: B1_prep_time split: option.splits if_splits)
  have c2: "\<forall>s n. p ''maxCookTime'' = Some s \<and> parseInt10 s = Some n \<and> 0 < n \<longrightarrow>
         searchRecipes_B1_query p ''cook_time'' = Some (Lte (Num (of_int n)))"
    using parseInt10_nonempty by (auto simp: B1_cook_time)
  have c1: "searchRecipes_B1_query p ''cook_time'' \<noteq> None \<longleftrightarrow>
         (\<exists>s n. p ''maxCookTime'' = Some s \<and> parseInt10 s = Some n \<and> 0 < n)"
    using c2 by (auto simp: B1_cook_time split: option.splits if_splits)
  from r1 r2 p1 p2 c1 c2 show ?thesis by (intro conjI)
qed

theorem search_thresholds_guarded_witness:
  "searchRecipes_B1_query [''minRating'' \<mapsto> ''6''] ''rating'' = None
   \<and> searchRecipes_B1_query [''minRating'' \<mapsto> ''4.5''] ''rating'' = Some (Gte (Num (9 / 2)))
   \<and> searchRecipes_B1_query [''maxPrepTime'' \<mapsto> ''0''] ''prep_time'' = None
   \<and> searchRecipes_B1_query [''maxCookTime'' \<mapsto> ''30''] ''cook_time'' = Some (Lte (Num 30))"
proof -
  have pf: "parseFloat ''6'' = Num 6" "parseFloat ''4.5'' = Num (9 / 2)"
    "parseInt10 ''0'' = Some 0" "parseInt10 ''30'' = Some 30"
    by (simp_all add: parse_eval)
  have a: "searchRecipes_B1_query [''minRating'' \<mapsto> ''6''] ''rating'' = None"
    using search_thresholds_guarded [of "[''minRating'' \<mapsto> ''6'']"] by (simp add: pf)
  have b: "searchRecipes_B1_query [''minRating'' \<mapsto> ''4.5''] ''rating'' = Some (Gte (Num (9 / 2)))"
    using search_thresholds_guarded [of "[''minRating'' \<mapsto> ''4.5'']"] by (simp add: pf)
  have c: "searchRecipes_B1_query [''maxPrepTime'' \<mapsto> ''0''] ''prep_time'' = None"
    using search_thresholds_guarded [of "[''maxPrepTime'' \<mapsto> ''0'']"] by (simp add: pf)
  have d: "searchRecipes_B1_query [''maxCookTime'' \<mapsto> ''30''] ''cook_time'' = Some (Lte (Num 30))"
    using search_thresholds_guarded [of "[''maxCookTime'' \<mapsto> ''30'']"] by (simp add: pf)
  from a b c d show ?thesis by (intro conjI)
qed


section \<open>The response envelope\<close>

lemma respond_Ok200:
  "respond E db flag msg l = Ok200 env \<longleftrightarrow>
     checkQuery E (loc_query l) = None \<and> \<not> refusesSort E (loc_sort l) \<and> 0 \<le> loc_skip l \<and>
     env = \<lparr>success = flag, page = loc_page l, limit = loc_limit l,
            total = length (filter (matches E (loc_query l)) db),
            data = limitDocs (loc_limit l)
                     (drop (nat (loc_skip l))
                        (sortDocs E (loc_sort l) (filter (matches E (loc_query l)) db)))\<rparr>"
  by (auto simp: respond_def find_docs_def countDocuments_def split: option.splits sum.splits)





lemma scenario_eval:
  "getRecipes refEngine sampleDb scenario =
     Ok200 \<lparr>success = Some True, page = 2, limit = 5, total = 12,
            data = [sampleRecipe ''l'' (3 / 2), sampleRecipe ''a'' (7 / 4), sampleRecipe ''i'' 2,
                    sampleRecipe ''e'' (9 / 4), sampleRecipe ''g'' (5 / 2)]\<rparr>"
  by code_simp



section \<open>The page window\<close>

lemma mkLocals_fields:
  "loc_page (mkLocals p q) = intOr (parseIntParam (p ''page'')) 1"
  "loc_limit (mkLocals p q) = intOr (parseIntParam (p ''limit'')) 10"
  "loc_skip (mkLocals p q) = (loc_page (mkLocals p q) - 1) * loc_limit (mkLocals p q)"
  by (simp_all add: mkLocals_def Let_def)

lemma negative_page_negative_skip:
  fixes pg :: int
  assumes "pg < 0" and "0 < lm0"
  shows "(pg - 1) * lm0 < 0"
  using assms by (simp add: mult_less_0_iff)

lemma page_one_skip_nonneg:
  fixes pg :: int
  assumes "1 \<le> pg" and "1 \<le> lm0"
  shows "0 \<le> (pg - 1) * lm0"
  using assms by simp

lemma window_of_locals:
  assumes "1 \<le> loc_page l" and "1 \<le> loc_limit l"
      and "loc_skip l = (loc_page l - 1) * loc_limit l"
  shows "(checkQuery E (loc_query l) = None \<and> \<not> refusesSort E (loc_sort l) \<longrightarrow>
            (\<exists>env. respond E db flag msg l = Ok200 env))
       \<and> (\<forall>env. respond E db flag msg l = Ok200 env \<longrightarrow>
             page env = loc_page l \<and> limit env = loc_limit l
           \<and> data env = take (nat (loc_limit l)) (drop (nat (loc_skip l))
                 (sortDocs E (loc_sort l) (filter (matches E (loc_query l)) db)))
           \<and> length (data env) \<le> nat (loc_limit l))"
proof -
  have sk: "0 \<le> loc_skip l"
    using assms by (simp add: page_one_skip_nonneg)
  have lm: "limitDocs (loc_limit l) xs = take (nat (loc_limit l)) xs" for xs
    using assms(2) by (simp add: limitDocs_def)
  show ?thesis
    using sk by (simp add: respond_Ok200 lm)
qed

text \<open>
  Claim C2, as the code has it. In each of the three handlers \<^verbatim>\<open>page\<close> is the parsed
  \<^verbatim>\<open>page\<close> parameter when that is an integer other than 0, and 1 when it does not
  parse or is 0; \<^verbatim>\<open>limit\<close> likewise, with 10; the offset is
  \<^verbatim>\<open>(page - 1) * limit\<close>. Negative values are passed through, and a negative page with
  a positive limit gives a negative offset. When page and limit are at least 1, the
  request succeeds whenever the store accepts the filter and the sort object, and a
  successful response
  carries that page and limit and, as \<^verbatim>\<open>data\<close>, the first \<^verbatim>\<open>limit\<close> documents that
  follow the first \<^verbatim>\<open>offset\<close> ones in the sorted list of all matching documents: at
  most \<^verbatim>\<open>limit\<close> of them.
\<close>

theorem page_window:
  assumes "(H, L) \<in> {(getRecipes, getRecipes_locals),
                      (searchRecipes_B1, searchRecipes_B1_locals),
                      (searchRecipes_B2, searchRecipes_B2_locals)}"
  shows "(\<forall>n. parseIntParam (p ''page'') = Some n \<and> n \<noteq> 0 \<longrightarrow> loc_page (L p) = n)
       \<and> (parseIntParam (p ''page'') \<in> {None, Some 0} \<longrightarrow> loc_page (L p) = 1)
       \<and> (\<forall>n. parseIntParam (p ''limit'') = Some n \<and> n \<noteq> 0 \<longrightarrow> loc_limit (L p) = n)
       \<and> (parseIntParam (p ''limit'') \<in> {None, Some 0} \<longrightarrow> loc_limit (L p) = 10)
       \<and> loc_skip (L p) = (loc_page (L p) - 1) * loc_limit (L p)
       \<and> (loc_page (L p) < 0 \<and> 0 < loc_limit (L p) \<longrightarrow> loc_skip (L p) < 0)
       \<and> (1 \<le> loc_page (L p) \<and> 1 \<le> loc_limit (L p) \<longrightarrow>
            (checkQuery E (loc_query (L p)) = None \<and> \<not> refusesSort E (loc_sort (L p)) \<longrightarrow>
               (\<exists>env. H E db p = Ok200 env))
          \<and> (\<forall>env. H E db p = Ok200 env \<longrightarrow>
                page env = loc_page (L p) \<and> limit env = loc_limit (L p)
              \<and> data env = take (nat (loc_limit (L p))) (drop (nat (loc_skip (L p)))
                    (sortDocs E (loc_sort (L p)) (filter (matches E (loc_query (L p))) db)))
              \<and> length (data env) \<le> nat (loc_limit (L p))))"
proof -
  obtain q flag msg where L: "L p = mkLocals p q"
    and H: "H E db p = respond E db flag msg (L p)"
    using assms
    by (auto simp: getRecipes_def getRecipes_locals_def searchRecipes_B1_def
          searchRecipes_B1_locals_def searchRecipes_B2_def searchRecipes_B2_locals_def)
  have pg: "loc_page (L p) = intOr (parseIntParam (p ''page'')) 1"
    and lm: "loc_limit (L p) = intOr (parseIntParam (p ''limit'')) 10"
    and sk: "loc_skip (L p) = (loc_page (L p) - 1) * loc_limit (L p)"
    unfolding L by (rule mkLocals_fields)+
  have 1: "\<forall>n. parseIntParam (p ''page'') = Some n \<and> n \<noteq> 0 \<longrightarrow> loc_page (L p) = n"
    by (simp add: pg intOr_def)
  have 2: "parseIntParam (p ''page'') \<in> {None, Some 0} \<longrightarrow> loc_page (L p) = 1"
    by (auto simp: pg intOr_def)
  have 3: "\<forall>n. parseIntParam (p ''limit'') = Some n \<and> n \<noteq> 0 \<longrightarrow> loc_limit (L p) = n"
    by (simp add: lm intOr_def)
  have 4: "parseIntParam (p ''limit'') \<in> {None, Some 0} \<longrightarrow> loc_limit (L p) = 10"
    by (auto simp: lm intOr_def)
  have 5: "loc_page (L p) < 0 \<and> 0 < loc_limit (L p) \<longrightarrow> loc_skip (L p) < 0"
    unfolding sk by (simp add: negative_page_negative_skip)
  have 6: "1 \<le> loc_page (L p) \<and> 1 \<le> loc_limit (L p) \<longrightarrow>
            (checkQuery E (loc_query (L p)) = None \<and> \<not> refusesSort E (loc_sort (L p)) \<longrightarrow>
               (\<exists>env. H E db p = Ok200 env))
          \<and> (\<forall>env. H E db p = Ok200 env \<longrightarrow>
                page env = loc_page (L p) \<and> limit env = loc_limit (L p)
              \<and> data env = take (nat (loc_limit (L p))) (drop (nat (loc_skip (L p)))
                    (sortDocs E (loc_sort (L p)) (filter (matches E (loc_query (L p))) db)))
              \<and> length (data env) \<le> nat (loc_limit (L p)))"
    unfolding H using window_of_locals [OF _ _ sk, of E db flag msg] by blast
  from 1 2 3 4 sk 5 6 show ?thesis by (intro conjI)
qed

theorem page_window_witness:
  "loc_page (getRecipes_locals scenario) = 2 \<and> loc_limit (getRecipes_locals scenario) = 5
   \<and> loc_skip (getRecipes_locals scenario) = 5
   \<and> (\<exists>env. getRecipes refEngine sampleDb scenario = Ok200 env
         \<and> data env = take 5 (drop 5 (sortDocs refEngine (''rating'', 1)
               (filter (matches refEngine (loc_query (getRecipes_locals scenario))) sampleDb)))
         \<and> length (data env) = 5)"
proof -
  have pi: "parseIntParam (scenario ''page'') = Some 2"
    "parseIntParam (scenario ''limit'') = Some 5"
    by (simp_all add: scenario_def parseIntParam_def parse_eval)
  have srt: "loc_sort (getRecipes_locals scenario) = (''rating'', 1)"
    by (simp add: getRecipes_locals_def loc_sort_mkLocals sortObject_def strOr_def scenario_def)
  note t = page_window [of getRecipes getRecipes_locals scenario refEngine sampleDb]
  have pg: "loc_page (getRecipes_locals scenario) = 2"
    and lm: "loc_limit (getRecipes_locals scenario) = 5"
    using t pi by simp_all
  have sk: "loc_skip (getRecipes_locals scenario) = 5"
    using t pg lm by simp
  let ?e = "\<lparr>success = Some True, page = 2, limit = 5, total = 12,
            data = [sampleRecipe ''l'' (3 / 2), sampleRecipe ''a'' (7 / 4), sampleRecipe ''i'' 2,
                    sampleRecipe ''e'' (9 / 4), sampleRecipe ''g'' (5 / 2)]\<rparr>"
  have ev: "getRecipes refEngine sampleDb scenario = Ok200 ?e"
    by (rule scenario_eval)
  have d: "data ?e = take 5 (drop 5 (sortDocs refEngine (''rating'', 1)
               (filter (matches refEngine (loc_query (getRecipes_locals scenario))) sampleDb)))"
    using t ev pg lm sk srt by simp
  have len: "length (data ?e) = 5" by simp
  show ?thesis
    using pg lm sk ev d len by (intro conjI exI [of _ ?e])
qed

text \<open>
  The claim as the specification words it fails at zero: \<^verbatim>\<open>page=0\<close> parses to 0,
  which \<^verbatim>\<open>|| 1\<close> replaces by 1, so the offset is 0 and not negative; \<^verbatim>\<open>limit=0\<close>
  becomes 10.
\<close>

theorem page_zero_counterexample:
  "parseIntParam ([''page'' \<mapsto> ''0''] ''page'') = Some 0
   \<and> loc_page (getRecipes_locals [''page'' \<mapsto> ''0'']) = 1
   \<and> loc_page (getRecipes_locals [''page'' \<mapsto> ''0'']) \<noteq> 0
   \<and> loc_skip (getRecipes_locals [''page'' \<mapsto> ''0'']) = 0
   \<and> \<not> loc_skip (getRecipes_locals [''page'' \<mapsto> ''0'']) < 0
   \<and> parseIntParam ([''limit'' \<mapsto> ''0''] ''limit'') = Some 0
   \<and> loc_limit (getRecipes_locals [''limit'' \<mapsto> ''0'']) = 10"
proof -
  have z: "parseInt10 ''0'' = Some 0" by (simp add: parse_eval)
  show ?thesis
    by (simp add: getRecipes_locals_def mkLocals_fields parseIntParam_def intOr_def z)
qed


section \<open>Empty parameters\<close>

lemma sameOrBlank_upd: "sameOrBlank ((p(k \<mapsto> [])) a) ((p(k := None)) a)"
  by (simp add: sameOrBlank_def)

lemma ifTruthy_blank: "sameOrBlank v w \<Longrightarrow> ifTruthy v = ifTruthy w"
  by (auto simp: sameOrBlank_def ifTruthy_def fun_eq_iff)

lemma strOr_blank: "sameOrBlank v w \<Longrightarrow> strOr v = strOr w"
  by (auto simp: sameOrBlank_def strOr_def fun_eq_iff)

lemma parseIntParam_blank: "sameOrBlank v w \<Longrightarrow> parseIntParam v = parseIntParam w"
  by (auto simp: sameOrBlank_def parseIntParam_def parseInt10_def)

lemma asc_blank: "sameOrBlank v w \<Longrightarrow> (v = Some ''asc'') = (w = Some ''asc'')"
  by (auto simp: sameOrBlank_def)

lemma numericFilter_blank:
  "sameOrBlank (p f) (p' f) \<Longrightarrow> numericFilter p f = numericFilter p' f"
  by (auto simp: sameOrBlank_def numericFilter_def handleNumberFilter_empty fun_eq_iff)

lemma operatorFilter_blank:
  "sameOrBlank (p n) (p' n) \<Longrightarrow> sameOrBlank (p opn) (p' opn) \<Longrightarrow>
   operatorFilter p n opn d k = operatorFilter p' n opn d k"
  unfolding operatorFilter_def
  using ifTruthy_blank [of "p n" "p' n"] strOr_blank [of "p opn" "p' opn"] by simp

lemma sortObject_blank:
  assumes "\<And>a. sameOrBlank (p a) (p' a)"
  shows "sortObject p = sortObject p'"
  unfolding sortObject_def
  using strOr_blank [OF assms, of "''sortBy''"] asc_blank [OF assms, of "''sortOrder''"]
  by simp

lemma mkLocals_blank:
  assumes "\<And>a. sameOrBlank (p a) (p' a)"
  shows "mkLocals p q = mkLocals p' q"
  unfolding mkLocals_def
  using parseIntParam_blank [OF assms, of "''page''"] parseIntParam_blank [OF assms, of "''limit''"]
    sortObject_blank [of p p', OF assms]
  by simp

lemma getRecipes_query_blank:
  assumes "\<And>a. sameOrBlank (p a) (p' a)"
  shows "getRecipes_query p = getRecipes_query p'"
  unfolding getRecipes_query_def getRecipes_thresholds_def
  using ifTruthy_blank [OF assms, of "''q''"] ifTruthy_blank [OF assms, of "''cuisine''"]
    ifTruthy_blank [OF assms, of "''rating''"] ifTruthy_blank [OF assms, of "''maxTotalTime''"]
    numericFilter_blank [of p _ p', OF assms]
  by simp

lemma searchRecipes_B1_query_blank:
  assumes "\<And>a. sameOrBlank (p a) (p' a)"
  shows "searchRecipes_B1_query p = searchRecipes_B1_query p'"
  unfolding searchRecipes_B1_query_def
  using ifTruthy_blank [OF assms, of "''q''"] ifTruthy_blank [OF assms, of "''cuisine''"]
    ifTruthy_blank [OF assms, of "''minRating''"] ifTruthy_blank [OF assms, of "''maxPrepTime''"]
    ifTruthy_blank [OF assms, of "''maxCookTime''"]
  by simp

lemma searchRecipes_B2_query_blank:
  assumes "\<And>a. sameOrBlank (p a) (p' a)"
  shows "searchRecipes_B2_query p = searchRecipes_B2_query p'"
  unfolding searchRecipes_B2_query_def
  using ifTruthy_blank [OF assms, of "''title''"] ifTruthy_blank [OF assms, of "''cuisine''"]
    operatorFilter_blank [of p _ p', OF assms assms]
  by simp

text \<open>
  Claim C10. In each of the three handlers, giving any parameter as the empty string
  yields the same filter object as leaving that parameter out; the sort object and the
  page window are the same as well.
\<close>

theorem empty_string_is_absent:
  "getRecipes_query (p(k \<mapsto> [])) = getRecipes_query (p(k := None))
   \<and> searchRecipes_B1_query (p(k \<mapsto> [])) = searchRecipes_B1_query (p(k := None))
   \<and> searchRecipes_B2_query (p(k \<mapsto> [])) = searchRecipes_B2_query (p(k := None))
   \<and> getRecipes_locals (p(k \<mapsto> [])) = getRecipes_locals (p(k := None))
   \<and> searchRecipes_B1_locals (p(k \<mapsto> [])) = searchRecipes_B1_locals (p(k := None))
   \<and> searchRecipes_B2_locals (p(k \<mapsto> [])) = searchRecipes_B2_locals (p(k := None))"
proof -
  have s: "sameOrBlank ((p(k \<mapsto> [])) a) ((p(k := None)) a)" for a
    by (rule sameOrBlank_upd)
  have 1: "getRecipes_query (p(k \<mapsto> [])) = getRecipes_query (p(k := None))"
    by (rule getRecipes_query_blank) (rule s)
  have 2: "searchRecipes_B1_query (p(k \<mapsto> [])) = searchRecipes_B1_query (p(k := None))"
    by (rule searchRecipes_B1_query_blank) (rule s)
  have 3: "searchRecipes_B2_query (p(k \<mapsto> [])) = searchRecipes_B2_query (p(k := None))"
    by (rule searchRecipes_B2_query_blank) (rule s)
  have m: "mkLocals (p(k \<mapsto> [])) q = mkLocals (p(k := None)) q" for q
    by (rule mkLocals_blank) (rule s)
  show ?thesis
    unfolding getRecipes_locals_def searchRecipes_B1_locals_def searchRecipes_B2_locals_def
    using 1 2 3 m by simp
qed

end
